theory Spec2Isabelle
  imports Complex_Main "HOL-Library.AList" "HOL-Library.Sublist"
begin

section \<open>Values, strings and tables\<close>

text \<open>
  A Python \<^verbatim>\<open>str\<close> is a \<^typ>\<open>string\<close> (the UTF-8 bytes of the text). A spreadsheet cell
  is seen by the matchers only through \<^verbatim>\<open>pd.notna(value)\<close> and \<^verbatim>\<open>str(value)\<close>, so a cell
  is either the missing value \<open>NaN\<close> or \<open>Val s\<close>, a present value whose \<^verbatim>\<open>str()\<close> is \<open>s\<close>.
\<close>

datatype cell = NaN | Val string

fun notna :: "cell \<Rightarrow> bool" where
  "notna NaN = False"
| "notna (Val s) = True"

text \<open>\<^verbatim>\<open>str(value)\<close>, which is also what \<^verbatim>\<open>Series.astype(str)\<close> puts in each cell.\<close>

fun py_str :: "cell \<Rightarrow> string" where
  "py_str NaN = ''nan''"
| "py_str (Val s) = s"

text \<open>
  \<^verbatim>\<open>str.strip()\<close> removes leading and trailing whitespace. The ASCII whitespace characters
  of \<^verbatim>\<open>str.isspace\<close> are the code points 9 to 13 and 28 to 32; the whitespace characters
  beyond ASCII are not told apart from other text.
\<close>

definition isspace :: "char \<Rightarrow> bool" where
  "isspace c = (let n = (of_char c :: nat) in (9 \<le> n \<and> n \<le> 13) \<or> (28 \<le> n \<and> n \<le> 32))"

definition strip :: "string \<Rightarrow> string" where
  "strip s = rev (dropWhile isspace (rev (dropWhile isspace s)))"

text \<open>
  A \<^verbatim>\<open>dict\<close> keeps insertion order and has one entry per key: an association list,
  read with \<^const>\<open>map_of\<close> and written with \<^const>\<open>AList.update\<close> (which overwrites in place
  or appends). A row (\<^verbatim>\<open>pd.Series\<close>, or a record of \<^verbatim>\<open>to_dict('records')\<close>) maps column
  names to cells.
\<close>

type_synonym row = "(string \<times> cell) list"

text \<open>
  A \<^verbatim>\<open>DataFrame\<close> with the default \<^verbatim>\<open>RangeIndex\<close>: its number of rows and its columns,
  each a name with the list of its cells.
\<close>

record dataframe =
  df_len :: nat
  df_columns :: "(string \<times> cell list) list"


text \<open>\<^verbatim>\<open>df[col]\<close>; \<open>None\<close> when \<^verbatim>\<open>col not in df.columns\<close>.\<close>

definition df_col :: "dataframe \<Rightarrow> string \<Rightarrow> cell list option" where
  "df_col df c = map_of (df_columns df) c"

definition df_row :: "dataframe \<Rightarrow> nat \<Rightarrow> row" where
  "df_row df i = map (\<lambda>cv. (fst cv, snd cv ! i)) (df_columns df)"

text \<open>
  Exceptions, by class. The message of a \<^verbatim>\<open>ValidationError\<close> or of a
  \<^verbatim>\<open>ConfigurableDataMatchingError\<close> is given by what it reports; an exception that wraps
  another one (\<^verbatim>\<open>str(e)\<close> in its message) carries it.
\<close>

datatype validation_msg =
    PositionDataEmpty
  | InterviewDataEmpty
  | PositionNotDict nat
  | PositionNameMissing nat
  | InterviewNotDict nat
  | InterviewFieldMissing nat string

datatype error =
    KeyError string
  | IndexError
  | AttributeError
  | TypeError
  | ValueError
  | ValidationError validation_msg
  | DataMatchingError error
  | ConfigurableDataMatchingError config_msg
and config_msg =
    MappingsEmpty
  | MappingInvalid string string
  | PositionColumnsMissing "string list"
  | InterviewColumnsMissing "string list"
  | MatchingFailed error

text \<open>
  \<^verbatim>\<open>df.iloc[positions].to_dict('records')\<close>: a position outside the table raises
  \<^verbatim>\<open>IndexError\<close>.
\<close>

definition iloc_records :: "dataframe \<Rightarrow> nat list \<Rightarrow> error + row list" where
  "iloc_records df idxs =
     (if list_all (\<lambda>i. i < df_len df) idxs then Inr (map (df_row df) idxs) else Inl IndexError)"

text \<open>The column mapping \<^verbatim>\<open>{position column: interview column}\<close>.\<close>

type_synonym column_mappings = "(string \<times> string) list"

section \<open>FastDataMatcher\<close>

subsection \<open>\<^verbatim>\<open>build_indices\<close>\<close>

text \<open>
  \<^verbatim>\<open>interview_indices\<close>: for each indexed interview column, a dict from the trimmed
  string of a cell to the list of row positions that hold it.
\<close>

type_synonym col_index = "(string \<times> nat list) list"
type_synonym indices = "(string \<times> col_index) list"

text \<open>\<^verbatim>\<open>str_value = str(value).strip() if pd.notna(value) else ""\<close>\<close>

definition str_value :: "cell \<Rightarrow> string" where
  "str_value v = (if notna v then strip (py_str v) else '''')"

text \<open>
  One pass of the inner loop: a non-empty \<open>str_value\<close> gets \<open>idx\<close> appended to its list,
  which is created empty when the key is new.
\<close>

definition index_add :: "col_index \<Rightarrow> nat \<Rightarrow> cell \<Rightarrow> col_index" where
  "index_add ix idx v =
     (let s = str_value v in
      if s \<noteq> '''' then
        (case map_of ix s of
           None \<Rightarrow> AList.update s [idx] ix
         | Some l \<Rightarrow> AList.update s (l @ [idx]) ix)
      else ix)"

text \<open>\<^verbatim>\<open>for idx, value in enumerate(interview_df[int_col])\<close>, from position \<open>idx\<close> on.\<close>

fun index_column :: "col_index \<Rightarrow> nat \<Rightarrow> cell list \<Rightarrow> col_index" where
  "index_column ix idx [] = ix"
| "index_column ix idx (v # rest) = index_column (index_add ix idx v) (Suc idx) rest"

text \<open>
  The outer loop over the mapping: a mapped interview column that the table has gets a
  fresh index, stored under its name; one that the table lacks is passed over. Entries
  already in the store under other names stay.
\<close>

fun build_indices :: "column_mappings \<Rightarrow> indices \<Rightarrow> dataframe \<Rightarrow> indices" where
  "build_indices [] store df = store"
| "build_indices ((pos_col, int_col) # rest) store df =
     (case df_col df int_col of
        None \<Rightarrow> build_indices rest store df
      | Some vs \<Rightarrow> build_indices rest (AList.update int_col (index_column [] 0 vs) store) df)"

text \<open>The row positions of a column whose cell has the trimmed string \<open>s\<close>, in table order.\<close>

definition rows_holding :: "cell list \<Rightarrow> string \<Rightarrow> nat list" where
  "rows_holding vs s = filter (\<lambda>i. str_value (vs ! i) = s) [0..<length vs]"

subsection \<open>\<^verbatim>\<open>FastMatchResult\<close> and the matcher object\<close>

record match_result =
  position_row :: row
  interview_rows :: "row list"
  match_score :: real
  matched :: bool

record fast_matcher =
  fm_column_mappings :: column_mappings
  interview_indices :: indices

definition FastDataMatcher_init :: "column_mappings \<Rightarrow> fast_matcher" where
  "FastDataMatcher_init column_mappings =
     \<lparr>fm_column_mappings = column_mappings, interview_indices = []\<rparr>"

text \<open>The method \<^verbatim>\<open>build_indices(interview_df)\<close> on the object.\<close>

definition fm_build_indices :: "fast_matcher \<Rightarrow> dataframe \<Rightarrow> fast_matcher" where
  "fm_build_indices self interview_df =
     self\<lparr>interview_indices :=
            build_indices (fm_column_mappings self) (interview_indices self) interview_df\<rparr>"

definition clear_indices :: "fast_matcher \<Rightarrow> fast_matcher" where
  "clear_indices self = self\<lparr>interview_indices := []\<rparr>"

subsection \<open>\<^verbatim>\<open>_match_single_position_fast\<close>\<close>

text \<open>\<^verbatim>\<open>pos_row.get(pos_col, default)\<close>\<close>

definition series_get :: "row \<Rightarrow> string \<Rightarrow> cell \<Rightarrow> cell" where
  "series_get r k d = (case map_of r k of None \<Rightarrow> d | Some v \<Rightarrow> v)"

text \<open>
  The loop over the mapping. \<open>candidate_indices\<close> is \<open>None\<close> or a Python set of row
  positions, kept here as a duplicate-free list: \<^verbatim>\<open>set(col_indices)\<close> is
  \<^const>\<open>remdups\<close>, \<^verbatim>\<open>intersection\<close> filters. A condition whose position value is empty or
  \<^verbatim>\<open>'nan'\<close> after trimming is skipped, and so is one whose interview column has no
  index; an empty intersection ends the loop (\<^verbatim>\<open>break\<close>). The list stands for the set: the
  order in which \<^verbatim>\<open>list(candidate_indices)\<close> enumerates it is the interpreter's, and what is
  proved of the matched rows is proved of their set.
\<close>

fun candidate_indices_loop ::
  "indices \<Rightarrow> row \<Rightarrow> column_mappings \<Rightarrow> nat list option \<Rightarrow> nat list option" where
  "candidate_indices_loop ixs pos_row [] candidate_indices = candidate_indices"
| "candidate_indices_loop ixs pos_row ((pos_col, int_col) # rest) candidate_indices =
     (let pos_value = strip (py_str (series_get pos_row pos_col (Val ''''))) in
      if pos_value = '''' \<or> pos_value = ''nan''
      then candidate_indices_loop ixs pos_row rest candidate_indices
      else
        (case map_of ixs int_col of
           None \<Rightarrow> candidate_indices_loop ixs pos_row rest candidate_indices
         | Some ix \<Rightarrow>
             (let col_indices = (case map_of ix pos_value of None \<Rightarrow> [] | Some l \<Rightarrow> l);
                  candidate_indices' =
                    (case candidate_indices of
                       None \<Rightarrow> remdups col_indices
                     | Some c \<Rightarrow> filter (\<lambda>i. i \<in> set col_indices) c)
              in if candidate_indices' = [] then Some candidate_indices'
                 else candidate_indices_loop ixs pos_row rest (Some candidate_indices'))))"

definition match_single_position_fast ::
  "indices \<Rightarrow> column_mappings \<Rightarrow> row \<Rightarrow> dataframe \<Rightarrow> error + match_result" where
  "match_single_position_fast ixs column_mappings pos_row interview_df =
     (case candidate_indices_loop ixs pos_row column_mappings None of
        Some (i # is) \<Rightarrow>
          (case iloc_records interview_df (i # is) of
             Inl e \<Rightarrow> Inl e
           | Inr rows \<Rightarrow>
               Inr \<lparr>position_row = pos_row, interview_rows = rows,
                    match_score = 1, matched = True\<rparr>)
      | _ \<Rightarrow>
          Inr \<lparr>position_row = pos_row, interview_rows = [],
               match_score = 0, matched = False\<rparr>)"

subsection \<open>\<^verbatim>\<open>match_data_fast\<close>\<close>

text \<open>\<^verbatim>\<open>df.iterrows()\<close>: the rows in table order.\<close>

definition df_rows :: "dataframe \<Rightarrow> row list" where
  "df_rows df = map (df_row df) [0..<df_len df]"

record match_statistics =
  total_positions :: nat
  matched_positions :: nat
  unmatched_positions :: nat
  match_rate :: real
  total_candidates :: nat

text \<open>The returned dict, without the wall-clock entry \<^verbatim>\<open>match_time\<close>.\<close>

record fast_output =
  fo_match_results :: "match_result list"
  fo_statistics :: match_statistics

definition batch_size :: nat where
  "batch_size = 50"

text \<open>The inner loop: the positions of one batch, each result appended.\<close>

fun match_batch ::
  "indices \<Rightarrow> column_mappings \<Rightarrow> dataframe \<Rightarrow> row list \<Rightarrow> match_result list
     \<Rightarrow> error + match_result list" where
  "match_batch ixs ms interview_df [] match_results = Inr match_results"
| "match_batch ixs ms interview_df (pos_row # rest) match_results =
     (case match_single_position_fast ixs ms pos_row interview_df of
        Inl e \<Rightarrow> Inl e
      | Inr result \<Rightarrow> match_batch ixs ms interview_df rest (match_results @ [result]))"

text \<open>
  The outer loop over \<^verbatim>\<open>range(total_batches)\<close>; a batch is
  \<^verbatim>\<open>position_df.iloc[start_idx:end_idx]\<close>.
\<close>

fun match_batches ::
  "indices \<Rightarrow> column_mappings \<Rightarrow> dataframe \<Rightarrow> row list \<Rightarrow> nat list \<Rightarrow> match_result list
     \<Rightarrow> error + match_result list" where
  "match_batches ixs ms interview_df rows [] match_results = Inr match_results"
| "match_batches ixs ms interview_df rows (batch_idx # rest) match_results =
     (let start_idx = batch_idx * batch_size;
          end_idx = min (start_idx + batch_size) (length rows);
          batch_positions = take (end_idx - start_idx) (drop start_idx rows)
      in case match_batch ixs ms interview_df batch_positions match_results of
           Inl e \<Rightarrow> Inl e
         | Inr match_results' \<Rightarrow> match_batches ixs ms interview_df rows rest match_results')"

text \<open>
  The statistics of a result list; \<open>matched_count\<close>, which the source counts up while it
  loops, is the number of matched results.
\<close>

definition fast_statistics :: "nat \<Rightarrow> match_result list \<Rightarrow> match_statistics" where
  "fast_statistics n match_results =
     (let matched_count = length (filter matched match_results) in
      \<lparr>total_positions = n,
       matched_positions = matched_count,
       unmatched_positions = n - matched_count,
       match_rate = (if n > 0 then real matched_count / real n else 0),
       total_candidates =
         sum_list (map (\<lambda>r. length (interview_rows r)) (filter matched match_results))\<rparr>)"

text \<open>
  A method that changes the object returns its result, or the exception it raised,
  together with the object as it is afterwards. The index is built only when the store is
  empty.
\<close>

definition match_data_fast ::
  "fast_matcher \<Rightarrow> dataframe \<Rightarrow> dataframe \<Rightarrow> (error + fast_output) \<times> fast_matcher" where
  "match_data_fast self position_df interview_df =
     (let self' = (if interview_indices self = [] then fm_build_indices self interview_df
                   else self);
          total_batches = (df_len position_df + batch_size - 1) div batch_size
      in case match_batches (interview_indices self') (fm_column_mappings self') interview_df
                (df_rows position_df) [0..<total_batches] [] of
           Inl e \<Rightarrow> (Inl e, self')
         | Inr match_results \<Rightarrow>
             (Inr \<lparr>fo_match_results = match_results,
                   fo_statistics = fast_statistics (df_len position_df) match_results\<rparr>,
              self'))"

text \<open>The calls that act on the index store of a matcher object.\<close>

datatype fast_call =
    BuildIndices dataframe
  | MatchDataFast dataframe dataframe
  | ClearIndices

fun fast_call_effect :: "fast_call \<Rightarrow> fast_matcher \<Rightarrow> fast_matcher" where
  "fast_call_effect (BuildIndices interview_df) self = fm_build_indices self interview_df"
| "fast_call_effect (MatchDataFast position_df interview_df) self =
     snd (match_data_fast self position_df interview_df)"
| "fast_call_effect ClearIndices self = clear_indices self"

section \<open>ConfigurableDataMatcher\<close>

subsection \<open>Results and the matcher object\<close>

text \<open>
  \<^verbatim>\<open>match_details\<close> is one of three dicts: the \<^verbatim>\<open>no_conditions\<close> entry; the per-condition
  entries \<^verbatim>\<open>exact_<column>\<close> of a successful match; or the \<^verbatim>\<open>no_match\<close> entry with
  \<^verbatim>\<open>conditions_checked\<close> and \<^verbatim>\<open>match_conditions\<close>.
\<close>

record condition_detail =
  target_value :: string
  match_type :: string
  matches_found :: nat
  cumulative_matches :: nat

datatype match_details =
    NoConditions
  | ExactDetails "(string \<times> condition_detail) list"
  | NoMatch nat "(string \<times> string) list"

record configurable_match_result = match_result +
  match_details :: match_details

record configurable_matcher =
  cm_column_mappings :: column_mappings
  fuzzy_threshold :: real
  cm_match_results :: "configurable_match_result list"

subsection \<open>\<^verbatim>\<open>__init__\<close> and \<^verbatim>\<open>_validate_column_mappings\<close>\<close>

text \<open>The first invalid entry of the mapping, in dict order, is the one reported.\<close>

fun first_invalid_mapping :: "column_mappings \<Rightarrow> (string \<times> string) option" where
  "first_invalid_mapping [] = None"
| "first_invalid_mapping ((pos_col, int_col) # rest) =
     (if pos_col = '''' \<or> int_col = '''' then Some (pos_col, int_col)
      else first_invalid_mapping rest)"

definition validate_column_mappings :: "configurable_matcher \<Rightarrow> error option" where
  "validate_column_mappings self =
     (if cm_column_mappings self = [] then Some (ConfigurableDataMatchingError MappingsEmpty)
      else case first_invalid_mapping (cm_column_mappings self) of
             Some (pos_col, int_col) \<Rightarrow>
               Some (ConfigurableDataMatchingError (MappingInvalid pos_col int_col))
           | None \<Rightarrow> None)"

text \<open>
  The constructor sets the attributes, \<^verbatim>\<open>match_results\<close> to the empty list, and then
  validates: its outcome is the exception or nothing, with the object as the constructor
  left it.
\<close>

definition ConfigurableDataMatcher_init ::
  "column_mappings \<Rightarrow> real \<Rightarrow> (error + unit) \<times> configurable_matcher" where
  "ConfigurableDataMatcher_init column_mappings threshold =
     (let self = \<lparr>cm_column_mappings = column_mappings, fuzzy_threshold = threshold,
                  cm_match_results = []\<rparr>
      in case validate_column_mappings self of
           Some e \<Rightarrow> (Inl e, self)
         | None \<Rightarrow> (Inr (), self))"

subsection \<open>\<^verbatim>\<open>_validate_columns_exist\<close>\<close>

definition validate_columns_exist ::
  "configurable_matcher \<Rightarrow> dataframe \<Rightarrow> dataframe \<Rightarrow> error option" where
  "validate_columns_exist self position_df interview_df =
     (let missing_pos_cols =
            filter (\<lambda>pos_col. df_col position_df pos_col = None)
              (map fst (cm_column_mappings self));
          missing_int_cols =
            filter (\<lambda>int_col. df_col interview_df int_col = None)
              (map snd (cm_column_mappings self))
      in if missing_pos_cols \<noteq> []
         then Some (ConfigurableDataMatchingError (PositionColumnsMissing missing_pos_cols))
         else if missing_int_cols \<noteq> []
         then Some (ConfigurableDataMatchingError (InterviewColumnsMissing missing_int_cols))
         else None)"

subsection \<open>\<^verbatim>\<open>_find_matches_for_position\<close>\<close>

text \<open>
  The match conditions: \<^verbatim>\<open>pos_row[pos_col]\<close> raises \<^verbatim>\<open>KeyError\<close> for a column the row
  lacks; a value that is missing or whose string is empty gives no condition.
\<close>

fun build_match_conditions :: "row \<Rightarrow> column_mappings \<Rightarrow> error + (string \<times> string) list" where
  "build_match_conditions pos_row [] = Inr []"
| "build_match_conditions pos_row ((pos_col, int_col) # rest) =
     (case map_of pos_row pos_col of
        None \<Rightarrow> Inl (KeyError pos_col)
      | Some v \<Rightarrow>
          (let pos_value = (if notna v then py_str v else '''') in
           case build_match_conditions pos_row rest of
             Inl e \<Rightarrow> Inl e
           | Inr conds \<Rightarrow> Inr (if pos_value \<noteq> '''' then (int_col, pos_value) # conds else conds)))"

text \<open>
  The loop that narrows the boolean mask, one condition after the other; a condition on
  a column that the table lacks is reported and changes nothing.
\<close>

fun apply_conditions ::
  "dataframe \<Rightarrow> (string \<times> string) list \<Rightarrow> bool list \<Rightarrow> (string \<times> condition_detail) list
     \<Rightarrow> bool list \<times> (string \<times> condition_detail) list" where
  "apply_conditions interview_df [] row_mask details = (row_mask, details)"
| "apply_conditions interview_df ((int_col, pos_value) # rest) row_mask details =
     (case df_col interview_df int_col of
        None \<Rightarrow> apply_conditions interview_df rest row_mask details
      | Some vs \<Rightarrow>
          (let column_mask = map (\<lambda>v. py_str v = pos_value) vs;
               row_mask' = map2 (\<and>) row_mask column_mask
           in apply_conditions interview_df rest row_mask'
                (AList.update (''exact_'' @ int_col)
                   \<lparr>target_value = pos_value, match_type = ''exact'',
                    matches_found = length (filter id column_mask),
                    cumulative_matches = length (filter id row_mask')\<rparr> details)))"

text \<open>
  \<^verbatim>\<open>interview_df[mask].to_dict('records')\<close>. On a table with the default row index the
  operations of the \<^verbatim>\<open>try\<close> block (the comparison of a column, the conjunction of masks,
  the selection by the mask) raise nothing, so its \<^verbatim>\<open>except\<close> branch has no counterpart here.
\<close>

definition masked_records :: "dataframe \<Rightarrow> bool list \<Rightarrow> row list" where
  "masked_records df row_mask = map (df_row df) (filter (\<lambda>i. row_mask ! i) [0..<length row_mask])"

definition find_matches_for_position ::
  "column_mappings \<Rightarrow> row \<Rightarrow> dataframe \<Rightarrow> error + configurable_match_result" where
  "find_matches_for_position column_mappings pos_row interview_df =
     (case build_match_conditions pos_row column_mappings of
        Inl e \<Rightarrow> Inl e
      | Inr match_conditions \<Rightarrow>
          if match_conditions = [] then
            Inr \<lparr>position_row = pos_row, interview_rows = [], match_score = 0,
                 matched = False, match_details = NoConditions\<rparr>
          else
            (let (row_mask, exact_match_details) =
                   apply_conditions interview_df match_conditions
                     (replicate (df_len interview_df) True) [];
                 exact_matches = masked_records interview_df row_mask
             in if length exact_matches > 0 then
                  Inr \<lparr>position_row = pos_row, interview_rows = exact_matches, match_score = 1,
                       matched = (length exact_matches > 0),
                       match_details = ExactDetails exact_match_details\<rparr>
                else
                  Inr \<lparr>position_row = pos_row, interview_rows = [], match_score = 0,
                       matched = False,
                       match_details = NoMatch (length match_conditions) match_conditions\<rparr>))"

subsection \<open>\<^verbatim>\<open>match_data\<close>\<close>

record configurable_statistics = match_statistics +
  high_confidence_matches :: nat
  medium_confidence_matches :: nat
  low_confidence_matches :: nat
  average_match_score :: real

record configurable_output =
  co_match_results :: "configurable_match_result list"
  co_statistics :: configurable_statistics
  co_column_mappings :: column_mappings

definition generate_match_statistics :: "configurable_matcher \<Rightarrow> configurable_output" where
  "generate_match_statistics self =
     (let rs = cm_match_results self;
          total = length rs;
          matched_rs = filter matched rs;
          matched_count = length matched_rs
      in \<lparr>co_match_results = rs,
          co_statistics =
            \<lparr>total_positions = total,
             matched_positions = matched_count,
             unmatched_positions = total - matched_count,
             match_rate = (if total > 0 then real matched_count / real total else 0),
             total_candidates = sum_list (map (\<lambda>r. length (interview_rows r)) matched_rs),
             high_confidence_matches =
               length (filter (\<lambda>r. match_score r \<ge> 0.9) matched_rs),
             medium_confidence_matches =
               length (filter (\<lambda>r. 0.7 \<le> match_score r \<and> match_score r < 0.9) matched_rs),
             low_confidence_matches =
               length (filter (\<lambda>r. match_score r < 0.7) matched_rs),
             average_match_score =
               (if matched_count > 0
                then sum_list (map match_score matched_rs) / real matched_count else 0)\<rparr>,
          co_column_mappings = cm_column_mappings self\<rparr>)"

text \<open>The loop over the position rows; each result is appended to \<^verbatim>\<open>self.match_results\<close>.\<close>

fun match_rows ::
  "configurable_matcher \<Rightarrow> row list \<Rightarrow> dataframe \<Rightarrow> (error + unit) \<times> configurable_matcher" where
  "match_rows self [] interview_df = (Inr (), self)"
| "match_rows self (pos_row # rest) interview_df =
     (case find_matches_for_position (cm_column_mappings self) pos_row interview_df of
        Inl e \<Rightarrow> (Inl e, self)
      | Inr match_result \<Rightarrow>
          match_rows (self\<lparr>cm_match_results := cm_match_results self @ [match_result]\<rparr>)
            rest interview_df)"

text \<open>
  \<^verbatim>\<open>match_data\<close>: the columns are validated, the earlier results cleared, every position
  matched. An exception of the class \<^verbatim>\<open>ConfigurableDataMatchingError\<close> passes through, any
  other is wrapped in one.
\<close>

definition match_data ::
  "configurable_matcher \<Rightarrow> dataframe \<Rightarrow> dataframe
     \<Rightarrow> (error + configurable_output) \<times> configurable_matcher" where
  "match_data self position_df interview_df =
     (case validate_columns_exist self position_df interview_df of
        Some e \<Rightarrow> (Inl e, self)
      | None \<Rightarrow>
          (case match_rows (self\<lparr>cm_match_results := []\<rparr>) (df_rows position_df) interview_df of
             (Inl (ConfigurableDataMatchingError m), self') \<Rightarrow>
               (Inl (ConfigurableDataMatchingError m), self')
           | (Inl e, self') \<Rightarrow> (Inl (ConfigurableDataMatchingError (MatchingFailed e)), self')
           | (Inr u, self') \<Rightarrow> (Inr (generate_match_statistics self'), self')))"

text \<open>
  How \<^verbatim>\<open>ProcessingEngine._match_position_data\<close> uses the matcher: it constructs one and
  calls \<^verbatim>\<open>match_data\<close> on it; an exception of the constructor ends the call.
\<close>

definition construct_and_match ::
  "column_mappings \<Rightarrow> real \<Rightarrow> dataframe \<Rightarrow> dataframe
     \<Rightarrow> (error + configurable_output) \<times> configurable_matcher" where
  "construct_and_match column_mappings threshold position_df interview_df =
     (case ConfigurableDataMatcher_init column_mappings threshold of
        (Inl e, self) \<Rightarrow> (Inl e, self)
      | (Inr u, self) \<Rightarrow> match_data self position_df interview_df)"

section \<open>Python values and library functions\<close>

text \<open>
  The rows that the reader hands on as lists of dicts hold Python values: \<^verbatim>\<open>None\<close>, a
  number (\<^verbatim>\<open>int\<close> or \<^verbatim>\<open>float\<close>, here a real) or a string. A float that is no number
  (NaN, infinity) is left out: the reader drops the rows whose score is none.
\<close>

datatype pyval = PyNone | PyNum real | PyStr string

type_synonym pydict = "(string \<times> pyval) list"

text \<open>\<^verbatim>\<open>d.get(k)\<close>, which is \<^verbatim>\<open>None\<close> for a key the dict lacks, and \<^verbatim>\<open>d.get(k, default)\<close>.\<close>

definition dict_get :: "pydict \<Rightarrow> string \<Rightarrow> pyval" where
  "dict_get d k = (case map_of d k of None \<Rightarrow> PyNone | Some v \<Rightarrow> v)"

definition dict_get_default :: "pydict \<Rightarrow> string \<Rightarrow> pyval \<Rightarrow> pyval" where
  "dict_get_default d k dflt = (case map_of d k of None \<Rightarrow> dflt | Some v \<Rightarrow> v)"

text \<open>Truth value of a Python value in a condition.\<close>

fun truthy :: "pyval \<Rightarrow> bool" where
  "truthy PyNone = False"
| "truthy (PyNum r) = (r \<noteq> 0)"
| "truthy (PyStr s) = (s \<noteq> '''')"

text \<open>
  Functions of Python and its library that the code calls and that are no part of the
  repository are parameters of the model:
  \<^item> \<open>float_of_str\<close>, \<open>int_of_str\<close>: \<^verbatim>\<open>float(s)\<close> and \<^verbatim>\<open>int(s)\<close> of a string, \<open>None\<close> when
    they raise \<^verbatim>\<open>ValueError\<close>;
  \<^item> \<open>str_of_num\<close>: \<^verbatim>\<open>str(x)\<close> of a number;
  \<^item> \<open>lower\<close>: \<^verbatim>\<open>s.lower()\<close>;
  \<^item> \<open>sub_nonword\<close>: \<^verbatim>\<open>re.sub(r'[^\w\u4e00-\u9fff]', '', s)\<close>;
  \<^item> \<open>sequence_ratio\<close>: \<^verbatim>\<open>difflib.SequenceMatcher(None, a, b).ratio()\<close>;
  \<^item> \<open>list_of_set\<close>: the order in which \<^verbatim>\<open>list(positions)\<close> enumerates the set that was
    filled with the given strings, in the given order. It depends on the hash seed of
    the interpreter process.
\<close>

record pylib =
  float_of_str :: "string \<Rightarrow> real option"
  int_of_str :: "string \<Rightarrow> int option"
  str_of_num :: "real \<Rightarrow> string"
  lower :: "string \<Rightarrow> string"
  sub_nonword :: "string \<Rightarrow> string"
  sequence_ratio :: "string \<Rightarrow> string \<Rightarrow> real"
  list_of_set :: "string list \<Rightarrow> string list"

section \<open>ProcessingEngine: the scores of each position\<close>

subsection \<open>\<^verbatim>\<open>PositionMapping\<close> and \<^verbatim>\<open>PositionScoreResult\<close>\<close>

text \<open>
  The dataclass \<^verbatim>\<open>PositionMapping\<close> of \<^verbatim>\<open>data_matcher.py\<close>, its fields of the types that
  the class declares.
\<close>

record position_mapping =
  pm_position_code :: string
  pm_position_name :: string
  pm_department :: string
  pm_department_name :: string
  pm_recruit_count :: int
  pm_sheet_name :: string
  pm_interview_position :: string
  pm_match_confidence :: real
  pm_candidate_count :: nat

text \<open>
  The four status texts, as UTF-8: \<^verbatim>\<open>U+6B63 U+5E38\<close> (normal),
  \<^verbatim>\<open>U+65E0 U+9762 U+8BD5 U+4EBA U+5458\<close> (no interview candidates),
  \<^verbatim>\<open>U+6570 U+636E U+5F02 U+5E38\<close> (data anomaly) and \<^verbatim>\<open>U+65E0 U+6CD5 U+5339 U+914D\<close>
  (cannot be matched).
\<close>

definition status_normal :: string where
  "status_normal = [CHR 0xE6, CHR 0xAD, CHR 0xA3, CHR 0xE5, CHR 0xB8, CHR 0xB8]"

definition status_no_interview :: string where
  "status_no_interview =
     [CHR 0xE6, CHR 0x97, CHR 0xA0, CHR 0xE9, CHR 0x9D, CHR 0xA2, CHR 0xE8, CHR 0xAF, CHR 0x95,
      CHR 0xE4, CHR 0xBA, CHR 0xBA, CHR 0xE5, CHR 0x91, CHR 0x98]"

definition status_data_anomaly :: string where
  "status_data_anomaly =
     [CHR 0xE6, CHR 0x95, CHR 0xB0, CHR 0xE6, CHR 0x8D, CHR 0xAE, CHR 0xE5, CHR 0xBC, CHR 0x82,
      CHR 0xE5, CHR 0xB8, CHR 0xB8]"

definition status_unmatched :: string where
  "status_unmatched =
     [CHR 0xE6, CHR 0x97, CHR 0xA0, CHR 0xE6, CHR 0xB3, CHR 0x95, CHR 0xE5, CHR 0x8C, CHR 0xB9,
      CHR 0xE9, CHR 0x85, CHR 0x8D]"

text \<open>The note of a result, by what it says.\<close>

datatype result_note =
    NoteNoCandidates
  | NoteNoValidScores
  | NoteScores nat "real list"
  | NoteUnmatched

record position_score_result =
  psr_position_code :: string
  psr_position_name :: string
  psr_department :: string
  psr_department_name :: string
  psr_recruit_count :: int
  candidate_count :: nat
  min_score :: "real option"
  status :: string
  result_notes :: result_note
  all_scores :: "real list"

text \<open>
  \<^verbatim>\<open>__post_init__\<close> trims the text fields (an empty one stays empty). The constructor is
  given strings here; a field that is given another value is treated where it occurs.
\<close>

definition post_init :: "position_score_result \<Rightarrow> position_score_result" where
  "post_init r =
     r\<lparr>psr_position_code := strip (psr_position_code r),
       psr_position_name := strip (psr_position_name r),
       psr_department := strip (psr_department r),
       psr_department_name := strip (psr_department_name r),
       status := strip (status r)\<rparr>"

subsection \<open>\<^verbatim>\<open>_process_matched_position\<close>\<close>

text \<open>
  The score of a candidate as a number, if it has one: \<^verbatim>\<open>None\<close> has none, a number is
  itself, a string is trimmed and parsed, and a string that does not parse is skipped.
\<close>

fun score_value :: "pylib \<Rightarrow> pyval \<Rightarrow> real option" where
  "score_value lib PyNone = None"
| "score_value lib (PyNum r) = Some r"
| "score_value lib (PyStr s) = float_of_str lib (strip s)"

text \<open>The loop that collects the scores.\<close>

fun collect_scores :: "pylib \<Rightarrow> pydict list \<Rightarrow> real list \<Rightarrow> real list" where
  "collect_scores lib [] scores = scores"
| "collect_scores lib (candidate # rest) scores =
     (case score_value lib (dict_get candidate ''score'') of
        None \<Rightarrow> collect_scores lib rest scores
      | Some x \<Rightarrow> collect_scores lib rest (scores @ [x]))"

definition process_matched_position ::
  "pylib \<Rightarrow> position_mapping \<Rightarrow> pydict list \<Rightarrow> position_score_result" where
  "process_matched_position lib mapping interview_data =
     (let position_candidates =
            filter (\<lambda>interview. dict_get interview ''position_name''
                                = PyStr (pm_interview_position mapping)) interview_data
      in if position_candidates = [] then
           post_init
             \<lparr>psr_position_code = pm_position_code mapping,
              psr_position_name = pm_position_name mapping,
              psr_department = pm_department mapping,
              psr_department_name = pm_department_name mapping,
              psr_recruit_count = pm_recruit_count mapping,
              candidate_count = 0, min_score = None, status = status_no_interview,
              result_notes = NoteNoCandidates, all_scores = []\<rparr>
         else
           (let scores = collect_scores lib position_candidates [] in
            if scores = [] then
              post_init
                \<lparr>psr_position_code = pm_position_code mapping,
                 psr_position_name = pm_position_name mapping,
                 psr_department = pm_department mapping,
                 psr_department_name = pm_department_name mapping,
                 psr_recruit_count = pm_recruit_count mapping,
                 candidate_count = length position_candidates, min_score = None,
                 status = status_data_anomaly, result_notes = NoteNoValidScores,
                 all_scores = []\<rparr>
            else
              (let sorted_scores = rev (sort scores) in
               post_init
                 \<lparr>psr_position_code = pm_position_code mapping,
                  psr_position_name = pm_position_name mapping,
                  psr_department = pm_department mapping,
                  psr_department_name = pm_department_name mapping,
                  psr_recruit_count = pm_recruit_count mapping,
                  candidate_count = length scores, min_score = None,
                  status = status_normal,
                  result_notes = NoteScores (length scores) sorted_scores,
                  all_scores = sorted_scores\<rparr>)))"

subsection \<open>\<^verbatim>\<open>_process_unmatched_position\<close>\<close>

text \<open>
  The keys of a position row, as UTF-8: \<^verbatim>\<open>U+804C U+4F4D U+4EE3 U+7801\<close> and
  \<^verbatim>\<open>U+5C97 U+4F4D U+4EE3 U+7801\<close> (position code), \<^verbatim>\<open>U+62DB U+8003 U+804C U+4F4D\<close> and
  \<^verbatim>\<open>U+5C97 U+4F4D U+540D U+79F0\<close> (position name), \<^verbatim>\<open>U+7528 U+4EBA U+53F8 U+5C40\<close>
  (department), \<^verbatim>\<open>U+90E8 U+95E8 U+540D U+79F0\<close> (department name) and
  \<^verbatim>\<open>U+62DB U+8003 U+4EBA U+6570\<close> (number of recruits).
\<close>

definition key_zhiwei_daima :: string where
  "key_zhiwei_daima =
     [CHR 0xE8, CHR 0x81, CHR 0x8C, CHR 0xE4, CHR 0xBD, CHR 0x8D, CHR 0xE4, CHR 0xBB, CHR 0xA3,
      CHR 0xE7, CHR 0xA0, CHR 0x81]"

definition key_gangwei_daima :: string where
  "key_gangwei_daima =
     [CHR 0xE5, CHR 0xB2, CHR 0x97, CHR 0xE4, CHR 0xBD, CHR 0x8D, CHR 0xE4, CHR 0xBB, CHR 0xA3,
      CHR 0xE7, CHR 0xA0, CHR 0x81]"

definition key_zhaokao_zhiwei :: string where
  "key_zhaokao_zhiwei =
     [CHR 0xE6, CHR 0x8B, CHR 0x9B, CHR 0xE8, CHR 0x80, CHR 0x83, CHR 0xE8, CHR 0x81, CHR 0x8C,
      CHR 0xE4, CHR 0xBD, CHR 0x8D]"

definition key_gangwei_mingcheng :: string where
  "key_gangwei_mingcheng =
     [CHR 0xE5, CHR 0xB2, CHR 0x97, CHR 0xE4, CHR 0xBD, CHR 0x8D, CHR 0xE5, CHR 0x90, CHR 0x8D,
      CHR 0xE7, CHR 0xA7, CHR 0xB0]"

definition key_yongren_siju :: string where
  "key_yongren_siju =
     [CHR 0xE7, CHR 0x94, CHR 0xA8, CHR 0xE4, CHR 0xBA, CHR 0xBA, CHR 0xE5, CHR 0x8F, CHR 0xB8,
      CHR 0xE5, CHR 0xB1, CHR 0x80]"

definition key_bumen_mingcheng :: string where
  "key_bumen_mingcheng =
     [CHR 0xE9, CHR 0x83, CHR 0xA8, CHR 0xE9, CHR 0x97, CHR 0xA8, CHR 0xE5, CHR 0x90, CHR 0x8D,
      CHR 0xE7, CHR 0xA7, CHR 0xB0]"

definition key_zhaokao_renshu :: string where
  "key_zhaokao_renshu =
     [CHR 0xE6, CHR 0x8B, CHR 0x9B, CHR 0xE8, CHR 0x80, CHR 0x83, CHR 0xE4, CHR 0xBA, CHR 0xBA,
      CHR 0xE6, CHR 0x95, CHR 0xB0]"

text \<open>\<^verbatim>\<open>str(v)\<close>\<close>

fun str_of :: "pylib \<Rightarrow> pyval \<Rightarrow> string" where
  "str_of lib PyNone = ''None''"
| "str_of lib (PyNum r) = str_of_num lib r"
| "str_of lib (PyStr s) = s"

text \<open>
  \<^verbatim>\<open>int(v)\<close>: a number is truncated towards zero, a string is parsed, \<^verbatim>\<open>None\<close> raises
  \<^verbatim>\<open>TypeError\<close>.
\<close>

fun int_of :: "pylib \<Rightarrow> pyval \<Rightarrow> error + int" where
  "int_of lib PyNone = Inl TypeError"
| "int_of lib (PyNum r) = Inr (if r \<ge> 0 then \<lfloor>r\<rfloor> else \<lceil>r\<rceil>)"
| "int_of lib (PyStr s) = (case int_of_str lib s of None \<Rightarrow> Inl ValueError | Some n \<Rightarrow> Inr n)"

text \<open>
  A text field in \<^verbatim>\<open>__post_init__\<close>: \<^verbatim>\<open>v.strip() if v else ""\<close>, which raises
  \<^verbatim>\<open>AttributeError\<close> for a number other than 0.
\<close>

fun strip_if :: "pyval \<Rightarrow> error + string" where
  "strip_if (PyStr s) = Inr (strip s)"
| "strip_if PyNone = Inr ''''"
| "strip_if (PyNum r) = (if r = 0 then Inr '''' else Inl AttributeError)"

definition process_unmatched_position :: "pylib \<Rightarrow> pydict \<Rightarrow> error + position_score_result" where
  "process_unmatched_position lib position =
     (let code = str_of lib (dict_get_default position key_zhiwei_daima
                              (dict_get_default position key_gangwei_daima (PyStr '''')));
          name = dict_get_default position key_zhaokao_zhiwei
                   (dict_get_default position key_gangwei_mingcheng (PyStr ''''));
          dept = dict_get_default position key_yongren_siju (PyStr '''');
          dept_name = dict_get_default position key_bumen_mingcheng (PyStr '''')
      in case (if truthy (dict_get position key_zhaokao_renshu)
               then int_of lib (dict_get_default position key_zhaokao_renshu (PyNum 0))
               else Inr 0) of
           Inl e \<Rightarrow> Inl e
         | Inr recruits \<Rightarrow>
             (case strip_if name of
                Inl e \<Rightarrow> Inl e
              | Inr name' \<Rightarrow>
                  (case strip_if dept of
                     Inl e \<Rightarrow> Inl e
                   | Inr dept' \<Rightarrow>
                       (case strip_if dept_name of
                          Inl e \<Rightarrow> Inl e
                        | Inr dept_name' \<Rightarrow>
                            Inr \<lparr>psr_position_code = strip code, psr_position_name = name',
                                 psr_department = dept', psr_department_name = dept_name',
                                 psr_recruit_count = recruits, candidate_count = 0,
                                 min_score = None, status = strip status_unmatched,
                                 result_notes = NoteUnmatched, all_scores = []\<rparr>))))"

subsection \<open>\<^verbatim>\<open>_calculate_min_scores\<close>\<close>

text \<open>
  Every position is processed, the matched ones first; a position whose processing
  raises is left out of the results, with a warning.
\<close>

datatype position_info = MatchedPosition position_mapping | UnmatchedPosition pydict

definition process_position ::
  "pylib \<Rightarrow> pydict list \<Rightarrow> position_info \<Rightarrow> error + position_score_result" where
  "process_position lib interview_data position_info =
     (case position_info of
        MatchedPosition mapping \<Rightarrow> Inr (process_matched_position lib mapping interview_data)
      | UnmatchedPosition position \<Rightarrow> process_unmatched_position lib position)"

fun process_positions ::
  "pylib \<Rightarrow> pydict list \<Rightarrow> position_info list
     \<Rightarrow> position_score_result list \<times> error list
     \<Rightarrow> position_score_result list \<times> error list" where
  "process_positions lib interview_data [] (results, warnings) = (results, warnings)"
| "process_positions lib interview_data (position_info # rest) (results, warnings) =
     (case process_position lib interview_data position_info of
        Inr result \<Rightarrow> process_positions lib interview_data rest (results @ [result], warnings)
      | Inl e \<Rightarrow> process_positions lib interview_data rest (results, warnings @ [e]))"

definition calculate_min_scores ::
  "pylib \<Rightarrow> position_mapping list \<Rightarrow> pydict list \<Rightarrow> pydict list
     \<Rightarrow> position_score_result list \<times> error list" where
  "calculate_min_scores lib mappings unmatched interview_data =
     (let all_positions = map MatchedPosition mappings @ map UnmatchedPosition unmatched
      in process_positions lib interview_data all_positions ([], []))"

subsection \<open>\<^verbatim>\<open>_generate_statistics\<close>\<close>

record score_statistics =
  ss_min_score :: real
  ss_max_score :: real
  ss_avg_score :: real
  ss_score_count :: nat

text \<open>
  The counts and the score statistics of the report (the entries that are formatted
  percentages, and the matcher's statistics that are passed through, are left out).
  \<open>score_statistics\<close> is \<open>None\<close> for the empty dict.
\<close>

record processing_statistics =
  ps_total_positions :: nat
  ps_normal_positions :: nat
  ps_no_interview_positions :: nat
  ps_unmatched_positions :: nat
  ps_error_positions :: nat
  ps_score_statistics :: "score_statistics option"
  ps_total_candidates :: nat
  ps_positions_with_candidates :: nat

definition generate_statistics :: "position_score_result list \<Rightarrow> processing_statistics" where
  "generate_statistics results =
     (let valid_scores = map (\<lambda>r. the (min_score r)) (filter (\<lambda>r. min_score r \<noteq> None) results)
      in \<lparr>ps_total_positions = length results,
          ps_normal_positions = length (filter (\<lambda>r. status r = status_normal) results),
          ps_no_interview_positions =
            length (filter (\<lambda>r. status r = status_no_interview) results),
          ps_unmatched_positions = length (filter (\<lambda>r. status r = status_unmatched) results),
          ps_error_positions = length (filter (\<lambda>r. status r = status_data_anomaly) results),
          ps_score_statistics =
            (case valid_scores of
               [] \<Rightarrow> None
             | x # xs \<Rightarrow>
                 Some \<lparr>ss_min_score = fold min xs x, ss_max_score = fold max xs x,
                       ss_avg_score = sum_list valid_scores / real (length valid_scores),
                       ss_score_count = length valid_scores\<rparr>),
          ps_total_candidates = sum_list (map candidate_count results),
          ps_positions_with_candidates =
            length (filter (\<lambda>r. candidate_count r > 0) results)\<rparr>)"

section \<open>DataMatcher: the legacy matcher\<close>

subsection \<open>Results and the matcher object\<close>

text \<open>The dataclass \<^verbatim>\<open>MatchResult\<close> of \<^verbatim>\<open>data_matcher.py\<close>.\<close>

record legacy_match_result =
  mr_position_name :: string
  mr_interview_position :: string
  mr_match_type :: string
  mr_confidence :: real
  mr_matched :: bool

record data_matcher =
  dm_fuzzy_threshold :: real
  dm_position_mappings :: "position_mapping list"
  dm_unmatched_positions :: "pydict list"
  dm_unmatched_interviews :: "string list"

text \<open>An element of a list of rows: a dict, or something else.\<close>

datatype pyobj = NotDict | Dict pydict

subsection \<open>\<^verbatim>\<open>_exact_match\<close> and \<^verbatim>\<open>_code_match\<close>\<close>

text \<open>\<^verbatim>\<open>re.sub(r'\s+', '', s)\<close>\<close>

definition remove_whitespace :: "string \<Rightarrow> string" where
  "remove_whitespace s = filter (\<lambda>c. \<not> isspace c) s"

text \<open>
  The name itself when it is in the list; else the first interview position that is
  equal to it save for case; else the first that is equal to it save for whitespace.
\<close>

definition exact_match :: "pylib \<Rightarrow> string \<Rightarrow> string list \<Rightarrow> string option" where
  "exact_match lib position_name interview_positions =
     (if position_name \<in> set interview_positions then Some position_name
      else
        (case find (\<lambda>interview_pos. lower lib interview_pos = lower lib position_name)
                interview_positions of
           Some interview_pos \<Rightarrow> Some interview_pos
         | None \<Rightarrow>
             find (\<lambda>interview_pos.
                     remove_whitespace position_name = remove_whitespace interview_pos)
               interview_positions))"

text \<open>The first interview position that contains the code (\<^verbatim>\<open>position_code in interview_pos\<close>).\<close>

definition code_match :: "string \<Rightarrow> string list \<Rightarrow> string option" where
  "code_match position_code interview_positions =
     (if position_code = '''' then None
      else find (\<lambda>interview_pos. sublist position_code interview_pos) interview_positions)"

subsection \<open>\<^verbatim>\<open>_fuzzy_match\<close>\<close>

text \<open>
  The stop words, as UTF-8: \<^verbatim>\<open>U+5C97 U+4F4D\<close>, \<^verbatim>\<open>U+804C U+4F4D\<close>, \<^verbatim>\<open>U+5DE5 U+4F5C\<close>,
  \<^verbatim>\<open>U+4EBA U+5458\<close>, \<^verbatim>\<open>U+4E13 U+5458\<close>, \<^verbatim>\<open>U+52A9 U+7406\<close>, \<^verbatim>\<open>U+4E3B U+7BA1\<close>,
  \<^verbatim>\<open>U+7ECF U+7406\<close>, \<^verbatim>\<open>U+603B U+76D1\<close>, \<^verbatim>\<open>U+5E08\<close>.
\<close>

definition stop_words :: "string list" where
  "stop_words =
     [[CHR 0xE5, CHR 0xB2, CHR 0x97, CHR 0xE4, CHR 0xBD, CHR 0x8D],
      [CHR 0xE8, CHR 0x81, CHR 0x8C, CHR 0xE4, CHR 0xBD, CHR 0x8D],
      [CHR 0xE5, CHR 0xB7, CHR 0xA5, CHR 0xE4, CHR 0xBD, CHR 0x9C],
      [CHR 0xE4, CHR 0xBA, CHR 0xBA, CHR 0xE5, CHR 0x91, CHR 0x98],
      [CHR 0xE4, CHR 0xB8, CHR 0x93, CHR 0xE5, CHR 0x91, CHR 0x98],
      [CHR 0xE5, CHR 0x8A, CHR 0xA9, CHR 0xE7, CHR 0x90, CHR 0x86],
      [CHR 0xE4, CHR 0xB8, CHR 0xBB, CHR 0xE7, CHR 0xAE, CHR 0xA1],
      [CHR 0xE7, CHR 0xBB, CHR 0x8F, CHR 0xE7, CHR 0x90, CHR 0x86],
      [CHR 0xE6, CHR 0x80, CHR 0xBB, CHR 0xE7, CHR 0x9B, CHR 0x91],
      [CHR 0xE5, CHR 0xB8, CHR 0x88]]"

text \<open>
  The keywords, as UTF-8: \<^verbatim>\<open>U+8F6F U+4EF6\<close>, \<^verbatim>\<open>U+5DE5 U+7A0B\<close>, \<^verbatim>\<open>U+5F00 U+53D1\<close>,
  \<^verbatim>\<open>U+4EA7 U+54C1\<close>, \<^verbatim>\<open>U+7ECF U+7406\<close>, \<^verbatim>\<open>U+8BBE U+8BA1\<close>, \<^verbatim>\<open>U+524D U+7AEF\<close>,
  \<^verbatim>\<open>U+540E U+7AEF\<close>, \<^verbatim>\<open>U+6570 U+636E\<close>, \<^verbatim>\<open>U+5206 U+6790\<close>, \<^verbatim>\<open>U+6D4B U+8BD5\<close>,
  \<^verbatim>\<open>U+8FD0 U+7EF4\<close>.
\<close>

definition common_keywords :: "string list" where
  "common_keywords =
     [[CHR 0xE8, CHR 0xBD, CHR 0xAF, CHR 0xE4, CHR 0xBB, CHR 0xB6],
      [CHR 0xE5, CHR 0xB7, CHR 0xA5, CHR 0xE7, CHR 0xA8, CHR 0x8B],
      [CHR 0xE5, CHR 0xBC, CHR 0x80, CHR 0xE5, CHR 0x8F, CHR 0x91],
      [CHR 0xE4, CHR 0xBA, CHR 0xA7, CHR 0xE5, CHR 0x93, CHR 0x81],
      [CHR 0xE7, CHR 0xBB, CHR 0x8F, CHR 0xE7, CHR 0x90, CHR 0x86],
      [CHR 0xE8, CHR 0xAE, CHR 0xBE, CHR 0xE8, CHR 0xAE, CHR 0xA1],
      [CHR 0xE5, CHR 0x89, CHR 0x8D, CHR 0xE7, CHR 0xAB, CHR 0xAF],
      [CHR 0xE5, CHR 0x90, CHR 0x8E, CHR 0xE7, CHR 0xAB, CHR 0xAF],
      [CHR 0xE6, CHR 0x95, CHR 0xB0, CHR 0xE6, CHR 0x8D, CHR 0xAE],
      [CHR 0xE5, CHR 0x88, CHR 0x86, CHR 0xE6, CHR 0x9E, CHR 0x90],
      [CHR 0xE6, CHR 0xB5, CHR 0x8B, CHR 0xE8, CHR 0xAF, CHR 0x95],
      [CHR 0xE8, CHR 0xBF, CHR 0x90, CHR 0xE7, CHR 0xBB, CHR 0xB4]]"

text \<open>
  \<^verbatim>\<open>s.replace(word, '')\<close>: every occurrence of \<open>word\<close> is taken out, from the left,
  occurrences not overlapping. For the empty word the string stays as it is.
\<close>

function remove_all :: "string \<Rightarrow> string \<Rightarrow> string" where
  "remove_all word [] = []"
| "remove_all word (c # cs) =
     (if word \<noteq> [] \<and> prefix word (c # cs) then remove_all word (drop (length word) (c # cs))
      else c # remove_all word cs)"
  by pat_completeness auto
termination
  by (relation "measure (\<lambda>(word, s). length s)") auto

definition clean_position_name :: "pylib \<Rightarrow> string \<Rightarrow> string" where
  "clean_position_name lib position_name =
     strip (remove_whitespace
       (sub_nonword lib (fold (\<lambda>word cleaned. remove_all word cleaned) stop_words
          position_name)))"

text \<open>Some keyword occurs in both names.\<close>

definition contains_keywords :: "string \<Rightarrow> string \<Rightarrow> bool" where
  "contains_keywords position1 position2 =
     list_ex (\<lambda>keyword. sublist keyword position1 \<and> sublist keyword position2) common_keywords"

definition fuzzy_ratio :: "pylib \<Rightarrow> string \<Rightarrow> string \<Rightarrow> real" where
  "fuzzy_ratio lib cleaned_position cleaned_interview =
     (let ratio = sequence_ratio lib cleaned_position cleaned_interview in
      if contains_keywords cleaned_position cleaned_interview then min 1 (ratio + 0.1)
      else ratio)"

text \<open>The loop that keeps the best ratio so far; a later equal ratio does not replace it.\<close>

fun fuzzy_loop :: "pylib \<Rightarrow> string \<Rightarrow> string list \<Rightarrow> string option \<times> real
     \<Rightarrow> string option \<times> real" where
  "fuzzy_loop lib cleaned_position [] (best_match, best_ratio) = (best_match, best_ratio)"
| "fuzzy_loop lib cleaned_position (interview_pos # rest) (best_match, best_ratio) =
     (let ratio = fuzzy_ratio lib cleaned_position (clean_position_name lib interview_pos) in
      if ratio > best_ratio
      then fuzzy_loop lib cleaned_position rest (Some interview_pos, ratio)
      else fuzzy_loop lib cleaned_position rest (best_match, best_ratio))"

definition fuzzy_match :: "pylib \<Rightarrow> string \<Rightarrow> string list \<Rightarrow> string option \<times> real" where
  "fuzzy_match lib position_name interview_positions =
     fuzzy_loop lib (clean_position_name lib position_name) interview_positions (None, 0)"

subsection \<open>\<^verbatim>\<open>_find_best_match\<close>\<close>

text \<open>A result of \<^verbatim>\<open>Optional[str]\<close> in a condition: \<^verbatim>\<open>None\<close> and the empty string are false.\<close>

fun found :: "string option \<Rightarrow> bool" where
  "found None = False"
| "found (Some s) = (s \<noteq> '''')"

text \<open>The third step and the fourth: the fuzzy match, if it reaches the threshold.\<close>

definition fuzzy_or_none ::
  "pylib \<Rightarrow> real \<Rightarrow> string \<Rightarrow> string list \<Rightarrow> legacy_match_result" where
  "fuzzy_or_none lib threshold position_name interview_positions =
     (case fuzzy_match lib position_name interview_positions of
        (best_match, confidence) \<Rightarrow>
          if found best_match \<and> confidence \<ge> threshold
          then \<lparr>mr_position_name = position_name, mr_interview_position = the best_match,
                mr_match_type = ''fuzzy'', mr_confidence = confidence, mr_matched = True\<rparr>
          else \<lparr>mr_position_name = position_name, mr_interview_position = '''',
                mr_match_type = ''none'', mr_confidence = 0, mr_matched = False\<rparr>)"

text \<open>
  \<open>find_best_match\<close>. The name of the position is read with \<^verbatim>\<open>position['position_name']\<close>;
  a name that is no string has no \<^verbatim>\<open>lower\<close>, which raises \<^verbatim>\<open>AttributeError\<close>. A code
  that is a number other than 0 raises \<^verbatim>\<open>TypeError\<close> in the first \<^verbatim>\<open>in\<close> test.
\<close>

definition find_best_match ::
  "pylib \<Rightarrow> real \<Rightarrow> pydict \<Rightarrow> string list \<Rightarrow> error + legacy_match_result" where
  "find_best_match lib threshold position interview_positions =
     (case map_of position ''position_name'' of
        None \<Rightarrow> Inl (KeyError ''position_name'')
      | Some (PyStr position_name) \<Rightarrow>
          (let position_code = dict_get_default position ''position_code'' (PyStr '''');
               exact = exact_match lib position_name interview_positions
           in if found exact then
                Inr \<lparr>mr_position_name = position_name, mr_interview_position = the exact,
                     mr_match_type = ''exact'', mr_confidence = 1, mr_matched = True\<rparr>
              else
                (case position_code of
                   PyStr code \<Rightarrow>
                     (if code \<noteq> '''' \<and> found (code_match code interview_positions) then
                        Inr \<lparr>mr_position_name = position_name,
                             mr_interview_position = the (code_match code interview_positions),
                             mr_match_type = ''code'', mr_confidence = 0.95, mr_matched = True\<rparr>
                      else Inr (fuzzy_or_none lib threshold position_name interview_positions))
                 | PyNum r \<Rightarrow>
                     (if r \<noteq> 0 \<and> interview_positions \<noteq> [] then Inl TypeError
                      else Inr (fuzzy_or_none lib threshold position_name interview_positions))
                 | PyNone \<Rightarrow>
                     Inr (fuzzy_or_none lib threshold position_name interview_positions)))
      | Some _ \<Rightarrow> Inl AttributeError)"

subsection \<open>\<^verbatim>\<open>_validate_input_data\<close>\<close>

fun validate_positions :: "nat \<Rightarrow> pyobj list \<Rightarrow> error option" where
  "validate_positions i [] = None"
| "validate_positions i (NotDict # rest) = Some (ValidationError (PositionNotDict (i + 1)))"
| "validate_positions i (Dict position # rest) =
     (if map_of position ''position_name'' = None
         \<or> \<not> truthy (dict_get position ''position_name'')
      then Some (ValidationError (PositionNameMissing (i + 1)))
      else validate_positions (i + 1) rest)"

text \<open>The first of the required fields that the dict lacks or has as \<^verbatim>\<open>None\<close>.\<close>

definition missing_field :: "pydict \<Rightarrow> string option" where
  "missing_field interview =
     find (\<lambda>field. map_of interview field = None \<or> map_of interview field = Some PyNone)
       [''name'', ''position_name'', ''score'']"

fun validate_interviews :: "nat \<Rightarrow> pyobj list \<Rightarrow> error option" where
  "validate_interviews i [] = None"
| "validate_interviews i (NotDict # rest) = Some (ValidationError (InterviewNotDict (i + 1)))"
| "validate_interviews i (Dict interview # rest) =
     (case missing_field interview of
        Some field \<Rightarrow> Some (ValidationError (InterviewFieldMissing (i + 1) field))
      | None \<Rightarrow> validate_interviews (i + 1) rest)"

definition validate_input_data :: "pyobj list \<Rightarrow> pyobj list \<Rightarrow> error option" where
  "validate_input_data position_data interview_data =
     (if position_data = [] then Some (ValidationError PositionDataEmpty)
      else if interview_data = [] then Some (ValidationError InterviewDataEmpty)
      else case validate_positions 0 position_data of
             Some e \<Rightarrow> Some e
           | None \<Rightarrow> validate_interviews 0 interview_data)"

subsection \<open>\<^verbatim>\<open>_extract_interview_positions\<close>\<close>

text \<open>
  The loop that fills the set, kept as the list of its elements in the order in which
  they came in; \<^verbatim>\<open>strip\<close> on a value that is no string raises \<^verbatim>\<open>AttributeError\<close>.
\<close>

fun collect_positions :: "pyobj list \<Rightarrow> string list \<Rightarrow> error + string list" where
  "collect_positions [] positions = Inr positions"
| "collect_positions (NotDict # rest) positions = Inl AttributeError"
| "collect_positions (Dict interview # rest) positions =
     (case dict_get_default interview ''position_name'' (PyStr '''') of
        PyStr s \<Rightarrow>
          (let position_name = strip s in
           if position_name \<noteq> '''' \<and> position_name \<notin> set positions
           then collect_positions rest (positions @ [position_name])
           else collect_positions rest positions)
      | _ \<Rightarrow> Inl AttributeError)"

definition extract_interview_positions :: "pylib \<Rightarrow> pyobj list \<Rightarrow> error + string list" where
  "extract_interview_positions lib interview_data =
     (case collect_positions interview_data [] of
        Inl e \<Rightarrow> Inl e
      | Inr positions \<Rightarrow> Inr (list_of_set lib positions))"

subsection \<open>\<^verbatim>\<open>match_positions\<close>\<close>

record legacy_statistics =
  ls_total_positions :: nat
  ls_matched_positions :: nat
  ls_unmatched_positions :: nat
  ls_unmatched_interviews :: nat
  ls_match_rate :: real

record legacy_output =
  lo_mappings :: "position_mapping list"
  lo_unmatched_positions :: "pydict list"
  lo_unmatched_interviews :: "string list"
  lo_statistics :: legacy_statistics

text \<open>
  The loop over the positions. For a position that found a match the source constructs
  \<^verbatim>\<open>PositionMapping\<close> without the fields \<^verbatim>\<open>department_name\<close> and \<^verbatim>\<open>recruit_count\<close>, which
  have no default: the constructor raises \<^verbatim>\<open>TypeError\<close>. A position that found none is
  appended to \<^verbatim>\<open>_unmatched_positions\<close>.
\<close>

fun match_each_position ::
  "pylib \<Rightarrow> data_matcher \<Rightarrow> pyobj list \<Rightarrow> string list \<Rightarrow> (error + unit) \<times> data_matcher" where
  "match_each_position lib self [] interview_positions = (Inr (), self)"
| "match_each_position lib self (NotDict # rest) interview_positions = (Inl TypeError, self)"
| "match_each_position lib self (Dict position # rest) interview_positions =
     (case find_best_match lib (dm_fuzzy_threshold self) position interview_positions of
        Inl e \<Rightarrow> (Inl e, self)
      | Inr match_result \<Rightarrow>
          if mr_matched match_result then (Inl TypeError, self)
          else match_each_position lib
                 (self\<lparr>dm_unmatched_positions := dm_unmatched_positions self @ [position]\<rparr>)
                 rest interview_positions)"

definition generate_match_result :: "data_matcher \<Rightarrow> legacy_output" where
  "generate_match_result self =
     (let n_mapped = length (dm_position_mappings self);
          n_unmatched = length (dm_unmatched_positions self)
      in \<lparr>lo_mappings = dm_position_mappings self,
          lo_unmatched_positions = dm_unmatched_positions self,
          lo_unmatched_interviews = dm_unmatched_interviews self,
          lo_statistics =
            \<lparr>ls_total_positions = n_mapped + n_unmatched,
             ls_matched_positions = n_mapped,
             ls_unmatched_positions = n_unmatched,
             ls_unmatched_interviews = length (dm_unmatched_interviews self),
             ls_match_rate =
               (if n_mapped + n_unmatched > 0
                then real n_mapped / real (n_mapped + n_unmatched) else 0)\<rparr>\<rparr>)"

text \<open>
  An exception that is a \<^verbatim>\<open>DataMatchingError\<close> or a \<^verbatim>\<open>ValidationError\<close> passes through,
  any other is wrapped in a \<^verbatim>\<open>DataMatchingError\<close>.
\<close>

fun reraise :: "error \<Rightarrow> error" where
  "reraise (DataMatchingError e) = DataMatchingError e"
| "reraise (ValidationError m) = ValidationError m"
| "reraise e = DataMatchingError e"

definition match_positions ::
  "pylib \<Rightarrow> data_matcher \<Rightarrow> pyobj list \<Rightarrow> pyobj list \<Rightarrow> (error + legacy_output) \<times> data_matcher"
  where
  "match_positions lib self position_data interview_data =
     (let self1 = self\<lparr>dm_position_mappings := [], dm_unmatched_positions := [],
                       dm_unmatched_interviews := []\<rparr>
      in case validate_input_data position_data interview_data of
           Some e \<Rightarrow> (Inl (reraise e), self1)
         | None \<Rightarrow>
             (case extract_interview_positions lib interview_data of
                Inl e \<Rightarrow> (Inl (reraise e), self1)
              | Inr interview_positions \<Rightarrow>
                  (case match_each_position lib self1 position_data interview_positions of
                     (Inl e, self2) \<Rightarrow> (Inl (reraise e), self2)
                   | (Inr u, self2) \<Rightarrow>
                       (let matched_interview_positions =
                              map pm_interview_position (dm_position_mappings self2);
                            self3 = self2\<lparr>dm_unmatched_interviews :=
                              filter (\<lambda>pos. pos \<notin> set matched_interview_positions)
                                interview_positions\<rparr>
                        in (Inr (generate_match_result self3), self3)))))"

section \<open>DataValidator: the integrity of the position data\<close>

text \<open>What an error or a warning of the validator reports; row numbers count from 1.\<close>

datatype issue =
    DataEmpty
  | RowNotDict nat
  | NameMissing nat
  | RowError nat error
  | DuplicateName string
  | CodeMissing string
  | DuplicateCode string
  | DepartmentMissing string

record validation_details =
  duplicate_positions :: "string list"
  missing_codes :: "string list"
  empty_departments :: "string list"
  invalid_names :: "nat list"

record validation_result =
  is_valid :: bool
  errors :: "issue list"
  warnings :: "issue list"
  valid_count :: nat
  invalid_count :: nat
  details :: validation_details











section \<open>Notions used to state the properties of the matchers\<close>



text \<open>
  An interview position that counts as an exact match of a position name: equal to it,
  equal save for case, or equal save for whitespace.
\<close>

definition exact_candidate :: "pylib \<Rightarrow> string \<Rightarrow> string \<Rightarrow> bool" where
  "exact_candidate lib position_name interview_pos =
     (interview_pos = position_name
      \<or> lower lib interview_pos = lower lib position_name
      \<or> remove_whitespace position_name = remove_whitespace interview_pos)"






section \<open>Properties of the index\<close>

lemma rows_holding_Nil: "rows_holding [] s = []"
  by (simp add: rows_holding_def)

lemma rows_holding_Cons:
  "rows_holding (v # rest) s =
     (if str_value v = s then [0] else []) @ map Suc (rows_holding rest s)"
proof -
  have "[0..<length (v # rest)] = 0 # map Suc [0..<length rest]"
    by (simp add: upt_conv_Cons map_Suc_upt del: upt_Suc)
  then show ?thesis
    by (simp add: rows_holding_def filter_map comp_def del: upt_Suc)
qed

lemma map_of_index_add:
  "map_of (index_add ix idx v) s =
     (if s \<noteq> '''' \<and> str_value v = s
      then Some ((case map_of ix s of None \<Rightarrow> [] | Some l \<Rightarrow> l) @ [idx])
      else map_of ix s)"
  by (auto simp: index_add_def Let_def update_conv' split: option.splits)

text \<open>
  What the inner loop has stored under \<open>s\<close> after the cells \<open>vs\<close>, numbered from \<open>n\<close>:
  the positions found are appended, in order, to what was there.
\<close>

lemma map_of_index_column:
  "map_of (index_column ix n vs) s =
     (if s = '''' \<or> rows_holding vs s = [] then map_of ix s
      else Some ((case map_of ix s of None \<Rightarrow> [] | Some l \<Rightarrow> l)
                  @ map ((+) n) (rows_holding vs s)))"
proof (induction vs arbitrary: ix n)
  case Nil
  then show ?case by (simp add: rows_holding_Nil)
next
  case (Cons v rest)
  show ?case
    by (simp add: Cons.IH map_of_index_add rows_holding_Cons comp_def split: option.splits)
qed

lemma map_of_fresh_index:
  "map_of (index_column [] 0 vs) s =
     (if s = '''' \<or> rows_holding vs s = [] then None else Some (rows_holding vs s))"
proof -
  have "map ((+) (0::nat)) xs = xs" for xs
    by (induction xs) simp_all
  then show ?thesis
    by (simp add: map_of_index_column)
qed

lemma map_of_build_indices:
  "map_of (build_indices ms store df) c =
     (case df_col df c of
        Some vs \<Rightarrow> if c \<in> snd ` set ms then Some (index_column [] 0 vs) else map_of store c
      | None \<Rightarrow> map_of store c)"
proof (induction ms arbitrary: store c)
  case Nil
  then show ?case by (simp split: option.splits)
next
  case (Cons m ms)
  obtain p i where m: "m = (p, i)" by (cases m)
  show ?case
    by (simp add: m Cons.IH update_conv' split: option.splits)
qed

lemma rows_holding_iff:
  "i \<in> set (rows_holding vs s) \<longleftrightarrow> i < length vs \<and> str_value (vs ! i) = s"
  by (auto simp: rows_holding_def)

section \<open>The two single-position matchers compared\<close>





lemma distinct_rows_holding: "distinct (rows_holding vs s)"
  by (simp add: rows_holding_def)





section \<open>Properties of \<open>match_data_fast\<close>\<close>

lemma build_indices_keeps_entries:
  "store \<noteq> [] \<Longrightarrow> build_indices ms store df \<noteq> []"
proof (induction ms arbitrary: store)
  case Nil
  then show ?case by simp
next
  case (Cons m ms)
  obtain p i where m: "m = (p, i)" by (cases m)
  show ?case
  proof (cases "df_col df i")
    case None
    then show ?thesis using Cons by (simp add: m)
  next
    case (Some vs)
    have "AList.update i (index_column [] 0 vs) store \<noteq> []" by simp
    from Cons.IH [OF this] show ?thesis by (simp add: m Some)
  qed
qed

lemma match_batch_append:
  "match_batch ixs ms df (xs @ ys) acc =
     (case match_batch ixs ms df xs acc of
        Inl e \<Rightarrow> Inl e
      | Inr acc' \<Rightarrow> match_batch ixs ms df ys acc')"
  by (induction xs arbitrary: acc) (simp_all split: sum.splits)

text \<open>A batch is the next \<open>batch_size\<close> rows.\<close>

lemma batch_slice:
  "take (min (a + b) (length rows) - a) (drop a rows) = take b (drop a rows)"
  by (simp add: min_def)

text \<open>
  Batching changes nothing: the batches \<open>k, k + 1, \<dots>, k + j - 1\<close> together are the
  \<open>j * batch_size\<close> rows that follow the first \<open>k * batch_size\<close>.
\<close>

lemma match_batches_slice:
  "match_batches ixs ms df rows [k..<k + j] acc
     = match_batch ixs ms df (take (j * batch_size) (drop (k * batch_size) rows)) acc"
proof (induction j arbitrary: k acc)
  case 0
  then show ?case by simp
next
  case (Suc j)
  have upt: "[k..<k + Suc j] = k # [Suc k..<Suc k + j]"
    by (simp add: upt_conv_Cons)
  have split: "take (Suc j * batch_size) (drop (k * batch_size) rows)
      = take batch_size (drop (k * batch_size) rows)
        @ take (j * batch_size) (drop (Suc k * batch_size) rows)"
    by (simp add: take_add add.commute)
  have rest: "match_batches ixs ms df rows [Suc k..<Suc k + j] acc'
      = match_batch ixs ms df (take (j * batch_size) (drop (Suc k * batch_size) rows)) acc'"
    for acc'
    using Suc.IH [of "Suc k" acc'] .
  show ?case
  proof (cases "match_batch ixs ms df (take batch_size (drop (k * batch_size) rows)) acc")
    case (Inl e)
    then show ?thesis
      unfolding upt split match_batch_append
      by (simp only: match_batches.simps Let_def batch_slice sum.case)
  next
    case (Inr acc')
    then show ?thesis
      unfolding upt split match_batch_append
      by (simp only: match_batches.simps Let_def batch_slice sum.case rest)
  qed
qed

lemma match_batches_all:
  "match_batches ixs ms df rows [0..<(length rows + batch_size - 1) div batch_size] acc
     = match_batch ixs ms df rows acc"
proof -
  let ?t = "(length rows + batch_size - 1) div batch_size"
  have "length rows \<le> ?t * batch_size"
    by (simp add: batch_size_def)
  then have "take (?t * batch_size) rows = rows" by simp
  then show ?thesis
    using match_batches_slice [of ixs ms df rows 0 ?t acc] by simp
qed

lemma length_df_rows: "length (df_rows df) = df_len df"
  by (simp add: df_rows_def)

text \<open>\<open>match_data_fast\<close> in one piece: the store it works with, and what it returns.\<close>

lemma match_data_fast_unfold:
  "match_data_fast self position_df interview_df =
     (let self' = (if interview_indices self = [] then fm_build_indices self interview_df
                   else self)
      in (map_sum id
            (\<lambda>rs. \<lparr>fo_match_results = rs,
                    fo_statistics = fast_statistics (df_len position_df) rs\<rparr>)
            (match_batch (interview_indices self') (fm_column_mappings self') interview_df
               (df_rows position_df) []),
          self'))"
  using match_batches_all [of _ _ interview_df "df_rows position_df" "[]"]
  by (simp add: match_data_fast_def Let_def length_df_rows split: sum.splits)

section \<open>C1: index lookup against direct filtering\<close>




text \<open>
  The other two conditions of the amended statement are needed as well. For the position
  value \<^verbatim>\<open>'nan'\<close> the fast matcher skips the condition, while the configurable matcher
  applies it and finds the candidate whose cell is missing, which \<^verbatim>\<open>astype(str)\<close> reads as
  \<^verbatim>\<open>'nan'\<close>.
\<close>

lemma fast_differs_from_configurable_on_nan_text:
  "match_single_position_fast
     (build_indices [(''job'', ''job'')] [] \<lparr>df_len = 1, df_columns = [(''job'', [NaN])]\<rparr>)
     [(''job'', ''job'')] [(''job'', Val ''nan'')]
     \<lparr>df_len = 1, df_columns = [(''job'', [NaN])]\<rparr>
   = Inr \<lparr>position_row = [(''job'', Val ''nan'')], interview_rows = [], match_score = 0,
          matched = False\<rparr>
   \<and> find_matches_for_position [(''job'', ''job'')] [(''job'', Val ''nan'')]
       \<lparr>df_len = 1, df_columns = [(''job'', [NaN])]\<rparr>
   = Inr \<lparr>position_row = [(''job'', Val ''nan'')], interview_rows = [[(''job'', NaN)]],
          match_score = 1, matched = True,
          match_details = ExactDetails
            [(''exact_job'', \<lparr>target_value = ''nan'', match_type = ''exact'', matches_found = 1,
                             cumulative_matches = 1\<rparr>)]\<rparr>"
  by (simp add: match_single_position_fast_def find_matches_for_position_def df_col_def
      index_add_def str_value_def strip_def isspace_def series_get_def iloc_records_def
      df_row_def masked_records_def)

text \<open>
  For a mapped interview column that the candidate table lacks, the fast matcher has no
  index and no candidate, while the mask of the configurable matcher stays all true and
  every candidate row is returned.
\<close>

lemma fast_differs_from_configurable_on_missing_column:
  "match_single_position_fast
     (build_indices [(''unit'', ''dept'')] [] \<lparr>df_len = 1, df_columns = [(''job'', [Val ''A''])]\<rparr>)
     [(''unit'', ''dept'')] [(''unit'', Val ''X'')]
     \<lparr>df_len = 1, df_columns = [(''job'', [Val ''A''])]\<rparr>
   = Inr \<lparr>position_row = [(''unit'', Val ''X'')], interview_rows = [], match_score = 0,
          matched = False\<rparr>
   \<and> find_matches_for_position [(''unit'', ''dept'')] [(''unit'', Val ''X'')]
       \<lparr>df_len = 1, df_columns = [(''job'', [Val ''A''])]\<rparr>
   = Inr \<lparr>position_row = [(''unit'', Val ''X'')], interview_rows = [[(''job'', Val ''A'')]],
          match_score = 1, matched = True, match_details = ExactDetails []\<rparr>"
  by (simp add: match_single_position_fast_def find_matches_for_position_def df_col_def
      index_add_def str_value_def strip_def isspace_def series_get_def iloc_records_def
      df_row_def masked_records_def)

section \<open>C2: a position without conditions\<close>



text \<open>
  A value of whitespace only is not blank to the configurable matcher: it is a condition
  like any other text, here one that no candidate meets.
\<close>

lemma whitespace_value_is_a_condition:
  "find_matches_for_position [(''job'', ''job'')] [(''job'', Val '' '')]
     \<lparr>df_len = 1, df_columns = [(''job'', [Val ''A''])]\<rparr>
   = Inr \<lparr>position_row = [(''job'', Val '' '')], interview_rows = [], match_score = 0,
          matched = False, match_details = NoMatch 1 [(''job'', '' '')]\<rparr>"
  by (simp add: find_matches_for_position_def df_col_def df_row_def masked_records_def)

text \<open>
  The fast matcher, which has no diagnostic detail, returns the unmatched result when
  every mapped value is missing from the row, or empty or \<^verbatim>\<open>'nan'\<close> once trimmed; it raises
  nothing.
\<close>

lemma candidate_indices_loop_skips:
  assumes "\<forall>(pos_col, int_col) \<in> set column_mappings.
      strip (py_str (series_get pos_row pos_col (Val ''''))) \<in> {'''', ''nan''}"
  shows "candidate_indices_loop ixs pos_row column_mappings c = c"
  using assms by (induction column_mappings) auto

lemma fast_no_conditions_unmatched:
  assumes "\<forall>(pos_col, int_col) \<in> set column_mappings.
      strip (py_str (series_get pos_row pos_col (Val ''''))) \<in> {'''', ''nan''}"
  shows "match_single_position_fast ixs column_mappings pos_row interview_df
    = Inr \<lparr>position_row = pos_row, interview_rows = [], match_score = 0, matched = False\<rparr>"
  by (simp add: match_single_position_fast_def candidate_indices_loop_skips [OF assms])

section \<open>C6: an invalid column mapping\<close>

lemma first_invalid_mapping_None:
  "first_invalid_mapping ms = None \<longleftrightarrow> (\<forall>(p, i) \<in> set ms. p \<noteq> '''' \<and> i \<noteq> '''')"
  by (induction ms rule: first_invalid_mapping.induct) auto

lemma first_invalid_mapping_Some:
  "first_invalid_mapping ms = Some (p, i) \<Longrightarrow> (p, i) \<in> set ms \<and> (p = '''' \<or> i = '''')"
  by (induction ms rule: first_invalid_mapping.induct) (auto split: if_splits)

text \<open>
  C6. For a column mapping that is empty, or has an entry with an empty key or an empty
  value, the constructor raises \<^verbatim>\<open>ConfigurableDataMatchingError\<close> (for the empty mapping,
  or else for an entry of the mapping that has the empty key or value), and the list of
  match results of the object is empty. A caller that constructs the matcher and then
  matches gets that exception whatever the tables are: no position is matched. For
  every other mapping the constructor raises nothing.
\<close>

theorem invalid_mapping_raises_before_matching:
  "(column_mappings = [] \<or> (\<exists>(p, i) \<in> set column_mappings. p = '''' \<or> i = '''')
     \<longrightarrow> (\<exists>m. fst (ConfigurableDataMatcher_init column_mappings threshold)
                 = Inl (ConfigurableDataMatchingError m)
              \<and> (m = MappingsEmpty \<and> column_mappings = []
                 \<or> (\<exists>p i. m = MappingInvalid p i \<and> (p, i) \<in> set column_mappings
                        \<and> (p = '''' \<or> i = '''')))
              \<and> cm_match_results (snd (ConfigurableDataMatcher_init column_mappings threshold)) = []
              \<and> (\<forall>position_df interview_df.
                    fst (construct_and_match column_mappings threshold position_df interview_df)
                      = Inl (ConfigurableDataMatchingError m)
                  \<and> cm_match_results
                      (snd (construct_and_match column_mappings threshold position_df interview_df))
                      = [])))
   \<and> (\<not> (column_mappings = [] \<or> (\<exists>(p, i) \<in> set column_mappings. p = '''' \<or> i = ''''))
     \<longrightarrow> fst (ConfigurableDataMatcher_init column_mappings threshold) = Inr ())"
proof (cases "column_mappings = []")
  case True
  then show ?thesis
    by (simp add: ConfigurableDataMatcher_init_def validate_column_mappings_def
        construct_and_match_def)
next
  case nonempty: False
  show ?thesis
  proof (cases "first_invalid_mapping column_mappings")
    case None
    then have "\<not> (\<exists>(p, i) \<in> set column_mappings. p = '''' \<or> i = '''')"
      using first_invalid_mapping_None [of column_mappings] by fastforce
    then show ?thesis
      using nonempty None
      by (simp add: ConfigurableDataMatcher_init_def validate_column_mappings_def)
  next
    case (Some pi)
    obtain p i where pi: "pi = (p, i)" by (cases pi)
    from Some pi have mem: "(p, i) \<in> set column_mappings" "p = '''' \<or> i = ''''"
      using first_invalid_mapping_Some by blast+
    have init: "ConfigurableDataMatcher_init column_mappings threshold
        = (Inl (ConfigurableDataMatchingError (MappingInvalid p i)),
           \<lparr>cm_column_mappings = column_mappings, fuzzy_threshold = threshold,
            cm_match_results = []\<rparr>)"
      using nonempty Some pi
      by (simp add: ConfigurableDataMatcher_init_def validate_column_mappings_def)
    have invalid: "\<exists>(p, i) \<in> set column_mappings. p = '''' \<or> i = ''''"
      using mem by blast
    show ?thesis
      using mem invalid by (auto simp: init construct_and_match_def)
  qed
qed

theorem invalid_mapping_raises_before_matching_witness:
  "fst (ConfigurableDataMatcher_init [(''job'', ''job''), (''unit'', '''')] 0.8)
     = Inl (ConfigurableDataMatchingError (MappingInvalid ''unit'' ''''))
   \<and> cm_match_results (snd (construct_and_match [(''job'', ''job''), (''unit'', '''')] 0.8
        \<lparr>df_len = 1, df_columns = [(''job'', [Val ''A''])]\<rparr>
        \<lparr>df_len = 1, df_columns = [(''job'', [Val ''A''])]\<rparr>)) = []"
proof -
  have "fst (ConfigurableDataMatcher_init [(''job'', ''job''), (''unit'', '''')] 0.8)
     = Inl (ConfigurableDataMatchingError (MappingInvalid ''unit'' ''''))"
    by (simp add: ConfigurableDataMatcher_init_def validate_column_mappings_def)
  then show ?thesis
    using invalid_mapping_raises_before_matching
      [of "[(''job'', ''job''), (''unit'', '''')]" "0.8"]
    by simp
qed

section \<open>C7: what the built index holds\<close>

text \<open>
  C7. For a mapped interview column that the table has, \<open>build_indices\<close> stores an index
  under the column's name, whatever the store held before. A key \<open>s\<close> of that index with
  its list \<open>l\<close> is exactly a non-empty string \<open>s\<close> that is the trimmed \<^verbatim>\<open>str()\<close> of some
  present cell, with \<open>l\<close> the positions of all present cells whose trimmed string is \<open>s\<close>,
  in table order. The empty string is no key, and the position of a missing (NaN) or
  blank cell is in no list.
\<close>

theorem build_indices_value_to_rows:
  assumes "(pos_col, int_col) \<in> set column_mappings"
    and "df_col interview_df int_col = Some vs"
  shows "\<exists>ix. map_of (build_indices column_mappings store interview_df) int_col = Some ix
           \<and> (\<forall>s l. map_of ix s = Some l \<longleftrightarrow>
                  s \<noteq> '''' \<and> l \<noteq> [] \<and>
                  l = filter (\<lambda>i. notna (vs ! i) \<and> strip (py_str (vs ! i)) = s) [0..<length vs])
           \<and> map_of ix '''' = None
           \<and> (\<forall>s l i. map_of ix s = Some l \<and> i \<in> set l \<longrightarrow>
                  i < length vs \<and> notna (vs ! i) \<and> strip (py_str (vs ! i)) \<noteq> '''')"
proof -
  have in_ms: "int_col \<in> snd ` set column_mappings"
    using assms(1) by force
  have stored: "map_of (build_indices column_mappings store interview_df) int_col
                  = Some (index_column [] 0 vs)"
    by (simp add: map_of_build_indices assms(2) in_ms)
  have holding: "rows_holding vs s
                   = filter (\<lambda>i. notna (vs ! i) \<and> strip (py_str (vs ! i)) = s) [0..<length vs]"
    if "s \<noteq> ''''" for s
    unfolding rows_holding_def
    by (rule filter_cong) (use that in \<open>auto simp: str_value_def\<close>)
  have keys: "map_of (index_column [] 0 vs) s = Some l \<longleftrightarrow>
                s \<noteq> '''' \<and> l \<noteq> [] \<and>
                l = filter (\<lambda>i. notna (vs ! i) \<and> strip (py_str (vs ! i)) = s) [0..<length vs]"
    for s l
  proof (cases "s = ''''")
    case True
    then show ?thesis by (simp add: map_of_fresh_index)
  next
    case False
    then show ?thesis
      using holding [OF False] by (auto simp: map_of_fresh_index)
  qed
  have no_empty: "map_of (index_column [] 0 vs) '''' = None"
    by (simp add: map_of_fresh_index)
  have members: "i < length vs \<and> notna (vs ! i) \<and> strip (py_str (vs ! i)) \<noteq> ''''"
    if "map_of (index_column [] 0 vs) s = Some l" and "i \<in> set l" for s l i
  proof -
    from that(1) have s: "s \<noteq> ''''" and l: "l = rows_holding vs s"
      by (auto simp: map_of_fresh_index split: if_splits)
    from that(2) l have "i < length vs" and "str_value (vs ! i) = s"
      by (simp_all add: rows_holding_iff)
    with s show ?thesis
      by (auto simp: str_value_def split: if_splits)
  qed
  show ?thesis
    using stored keys no_empty members by blast
qed

theorem build_indices_value_to_rows_witness:
  "(''post'', ''job'') \<in> set [(''post'', ''job'')]
   \<and> df_col \<lparr>df_len = 4, df_columns = [(''job'', [Val ''A'', NaN, Val '' A '', Val ''  ''])]\<rparr> ''job''
       = Some [Val ''A'', NaN, Val '' A '', Val ''  '']
   \<and> map_of (build_indices [(''post'', ''job'')] []
        \<lparr>df_len = 4, df_columns = [(''job'', [Val ''A'', NaN, Val '' A '', Val ''  ''])]\<rparr>) ''job''
       = Some [(''A'', [0, 2])]"
proof -
  let ?vs = "[Val ''A'', NaN, Val '' A '', Val ''  '']"
  let ?df = "\<lparr>df_len = 4, df_columns = [(''job'', ?vs)]\<rparr>"
  have h1: "(''post'', ''job'') \<in> set [(''post'', ''job'')]" by simp
  have h2: "df_col ?df ''job'' = Some ?vs" by (simp add: df_col_def)
  have built: "map_of (build_indices [(''post'', ''job'')] [] ?df) ''job'' = Some [(''A'', [0, 2])]"
    by (simp add: df_col_def index_add_def str_value_def strip_def isspace_def)
  from build_indices_value_to_rows [OF h1 h2, of "[]"] h1 h2 built
  show ?thesis by blast
qed

section \<open>C10: a store that holds an index is reused\<close>

text \<open>
  C10. When the index store of the matcher is not empty, \<open>match_data_fast\<close> leaves the
  object as it is, and what it returns is the result of matching every position row
  against the stored index with the table it was given, whatever table the index was
  built from: a matched result holds the rows of the given table at the positions that
  the stored index yields (and the call raises \<^verbatim>\<open>IndexError\<close> if one of them lies outside
  the table). Of the calls \<open>build_indices\<close>, \<open>match_data_fast\<close> and \<open>clear_indices\<close>,
  only \<open>clear_indices\<close> turns a non-empty store into an empty one, and it always does.
\<close>

theorem nonempty_store_is_reused:
  "(interview_indices self \<noteq> [] \<longrightarrow>
      snd (match_data_fast self position_df interview_df) = self
    \<and> fst (match_data_fast self position_df interview_df)
        = map_sum id
            (\<lambda>rs. \<lparr>fo_match_results = rs,
                    fo_statistics = fast_statistics (df_len position_df) rs\<rparr>)
            (match_batch (interview_indices self) (fm_column_mappings self) interview_df
               (df_rows position_df) [])
    \<and> (\<forall>pos_row r.
          match_single_position_fast (interview_indices self) (fm_column_mappings self)
            pos_row interview_df = Inr r \<and> matched r
          \<longrightarrow> (\<exists>idxs. candidate_indices_loop (interview_indices self) pos_row
                         (fm_column_mappings self) None = Some idxs
                     \<and> interview_rows r = map (df_row interview_df) idxs))
    \<and> (\<forall>call. interview_indices (fast_call_effect call self) = [] \<longrightarrow> call = ClearIndices))
   \<and> interview_indices (clear_indices self) = []"
proof -
  have reuse: "snd (match_data_fast self position_df interview_df) = self"
    and result: "fst (match_data_fast self position_df interview_df)
        = map_sum id
            (\<lambda>rs. \<lparr>fo_match_results = rs,
                    fo_statistics = fast_statistics (df_len position_df) rs\<rparr>)
            (match_batch (interview_indices self) (fm_column_mappings self) interview_df
               (df_rows position_df) [])"
    if "interview_indices self \<noteq> []"
    using that by (simp_all add: match_data_fast_unfold)
  have rows: "\<exists>idxs. candidate_indices_loop (interview_indices self) pos_row
                         (fm_column_mappings self) None = Some idxs
                     \<and> interview_rows r = map (df_row interview_df) idxs"
    if "match_single_position_fast (interview_indices self) (fm_column_mappings self)
            pos_row interview_df = Inr r" and "matched r" for pos_row r
    using that
    by (auto simp: match_single_position_fast_def iloc_records_def
        split: option.splits list.splits sum.splits if_splits)
  have only_clear: "call = ClearIndices"
    if ne: "interview_indices self \<noteq> []"
      and e: "interview_indices (fast_call_effect call self) = []" for call
  proof (cases call)
    case (BuildIndices df)
    with e have "build_indices (fm_column_mappings self) (interview_indices self) df = []"
      by (simp add: fm_build_indices_def)
    with build_indices_keeps_entries [OF ne] show ?thesis by blast
  next
    case (MatchDataFast p c)
    with e ne show ?thesis by (simp add: match_data_fast_unfold)
  next
    case ClearIndices
    then show ?thesis .
  qed
  have clear: "interview_indices (clear_indices self) = []"
    by (simp add: clear_indices_def)
  show ?thesis
    using reuse result rows only_clear clear by blast
qed

text \<open>
  An index built from a table of three candidates, then a match against another table:
  the position \<^verbatim>\<open>'A'\<close> gets the rows 0 and 2 of the other table, which hold \<^verbatim>\<open>'C'\<close> and
  \<^verbatim>\<open>'D'\<close>.
\<close>

theorem nonempty_store_is_reused_witness:
  "interview_indices
     (fm_build_indices (FastDataMatcher_init [(''job'', ''job'')])
        \<lparr>df_len = 3, df_columns = [(''job'', [Val ''A'', Val ''B'', Val ''A''])]\<rparr>)
     = [(''job'', [(''A'', [0, 2]), (''B'', [1])])]
   \<and> match_data_fast
       (fm_build_indices (FastDataMatcher_init [(''job'', ''job'')])
          \<lparr>df_len = 3, df_columns = [(''job'', [Val ''A'', Val ''B'', Val ''A''])]\<rparr>)
       \<lparr>df_len = 1, df_columns = [(''job'', [Val ''A''])]\<rparr>
       \<lparr>df_len = 3, df_columns = [(''job'', [Val ''C'', Val ''A'', Val ''D''])]\<rparr>
     = (Inr \<lparr>fo_match_results =
               [\<lparr>position_row = [(''job'', Val ''A'')],
                 interview_rows = [[(''job'', Val ''C'')], [(''job'', Val ''D'')]],
                 match_score = 1, matched = True\<rparr>],
             fo_statistics =
               \<lparr>total_positions = 1, matched_positions = 1, unmatched_positions = 0,
                match_rate = 1, total_candidates = 2\<rparr>\<rparr>,
        fm_build_indices (FastDataMatcher_init [(''job'', ''job'')])
          \<lparr>df_len = 3, df_columns = [(''job'', [Val ''A'', Val ''B'', Val ''A''])]\<rparr>)"
proof -
  let ?old = "\<lparr>df_len = 3, df_columns = [(''job'', [Val ''A'', Val ''B'', Val ''A''])]\<rparr>"
  let ?new = "\<lparr>df_len = 3, df_columns = [(''job'', [Val ''C'', Val ''A'', Val ''D''])]\<rparr>"
  let ?pos = "\<lparr>df_len = 1, df_columns = [(''job'', [Val ''A''])]\<rparr>"
  let ?self = "fm_build_indices (FastDataMatcher_init [(''job'', ''job'')]) ?old"
  have ixs: "interview_indices ?self = [(''job'', [(''A'', [0, 2]), (''B'', [1])])]"
    by (simp add: fm_build_indices_def FastDataMatcher_init_def df_col_def index_add_def
        str_value_def strip_def isspace_def)
  have ms: "fm_column_mappings ?self = [(''job'', ''job'')]"
    by (simp add: fm_build_indices_def FastDataMatcher_init_def)
  have ne: "interview_indices ?self \<noteq> []"
    by (simp add: ixs)
  have single: "match_single_position_fast [(''job'', [(''A'', [0, 2]), (''B'', [1])])]
      [(''job'', ''job'')] [(''job'', Val ''A'')] ?new
      = Inr \<lparr>position_row = [(''job'', Val ''A'')],
             interview_rows = [[(''job'', Val ''C'')], [(''job'', Val ''D'')]],
             match_score = 1, matched = True\<rparr>"
    by (simp add: match_single_position_fast_def series_get_def strip_def isspace_def
        iloc_records_def df_row_def)
  have batch: "match_batch (interview_indices ?self) (fm_column_mappings ?self) ?new
      (df_rows ?pos) []
      = Inr [\<lparr>position_row = [(''job'', Val ''A'')],
              interview_rows = [[(''job'', Val ''C'')], [(''job'', Val ''D'')]],
              match_score = 1, matched = True\<rparr>]"
    by (simp add: ixs ms df_rows_def df_row_def single [simplified])
  have run: "match_data_fast ?self ?pos ?new
      = (Inr \<lparr>fo_match_results =
               [\<lparr>position_row = [(''job'', Val ''A'')],
                 interview_rows = [[(''job'', Val ''C'')], [(''job'', Val ''D'')]],
                 match_score = 1, matched = True\<rparr>],
             fo_statistics =
               \<lparr>total_positions = 1, matched_positions = 1, unmatched_positions = 0,
                match_rate = 1, total_candidates = 2\<rparr>\<rparr>, ?self)"
  proof -
    have stats: "fast_statistics (df_len ?pos)
        [\<lparr>position_row = [(''job'', Val ''A'')],
          interview_rows = [[(''job'', Val ''C'')], [(''job'', Val ''D'')]],
          match_score = 1, matched = True\<rparr>]
        = \<lparr>total_positions = 1, matched_positions = 1, unmatched_positions = 0,
           match_rate = 1, total_candidates = 2\<rparr>"
      by (simp add: fast_statistics_def)
    show ?thesis
      unfolding match_data_fast_unfold Let_def
      by (simp only: ne if_False batch map_sum.simps id_apply stats)
  qed
  from nonempty_store_is_reused [of ?self ?pos ?new] ixs run
  show ?thesis by blast
qed

section \<open>C3: the status of a position\<close>

lemma collect_scores_append:
  "collect_scores lib cs acc = acc @ collect_scores lib cs []"
proof (induction cs arbitrary: acc)
  case Nil
  then show ?case by simp
next
  case (Cons c cs)
  show ?case
  proof (cases "score_value lib (dict_get c ''score'')")
    case None
    then show ?thesis using Cons.IH [of acc] by simp
  next
    case (Some x)
    then show ?thesis using Cons.IH [of "acc @ [x]"] Cons.IH [of "[x]"] by simp
  qed
qed

text \<open>No score was collected iff no candidate has a score that parses.\<close>

lemma collect_scores_empty:
  "collect_scores lib cs [] = [] \<longleftrightarrow> (\<forall>c \<in> set cs. score_value lib (dict_get c ''score'') = None)"
proof (induction cs)
  case Nil
  then show ?case by simp
next
  case (Cons c cs)
  show ?case
  proof (cases "score_value lib (dict_get c ''score'')")
    case None
    then show ?thesis using Cons.IH by simp
  next
    case (Some x)
    then show ?thesis using collect_scores_append [of lib cs "[x]"] by simp
  qed
qed

lemma strip_status:
  "strip status_normal = status_normal"
  "strip status_no_interview = status_no_interview"
  "strip status_data_anomaly = status_data_anomaly"
  "strip status_unmatched = status_unmatched"
  by (simp_all add: strip_def isspace_def status_normal_def status_no_interview_def
      status_data_anomaly_def status_unmatched_def)

lemma status_distinct:
  "distinct [status_unmatched, status_no_interview, status_data_anomaly, status_normal]"
  by (simp add: status_normal_def status_no_interview_def status_data_anomaly_def
      status_unmatched_def)

lemma status_matched_position:
  "status (process_matched_position lib mapping interview_data) =
     (let candidates = filter (\<lambda>interview. dict_get interview ''position_name''
                                  = PyStr (pm_interview_position mapping)) interview_data
      in if candidates = [] then status_no_interview
         else if \<forall>c \<in> set candidates. score_value lib (dict_get c ''score'') = None
         then status_data_anomaly
         else status_normal)"
proof -
  define cs where "cs = filter (\<lambda>interview. dict_get interview ''position_name''
                                  = PyStr (pm_interview_position mapping)) interview_data"
  have st: "status (process_matched_position lib mapping interview_data) =
      (if cs = [] then status_no_interview
       else if collect_scores lib cs [] = [] then status_data_anomaly
       else status_normal)"
    unfolding cs_def
    by (simp add: process_matched_position_def post_init_def strip_status Let_def)
  show ?thesis
    unfolding Let_def cs_def [symmetric] st collect_scores_empty ..
qed

lemma status_unmatched_position:
  "process_unmatched_position lib position = Inr r \<Longrightarrow> status r = status_unmatched"
  by (auto simp: process_unmatched_position_def Let_def strip_status
      split: sum.splits if_splits)

text \<open>
  The results of \<open>calculate_min_scores\<close>: one for every matched position, then one for
  every unmatched position whose processing raises nothing.
\<close>

lemma process_positions_results:
  "fst (process_positions lib interview_data infos (results, ws)) =
     results @ concat (map (\<lambda>info. case process_position lib interview_data info of
                                     Inr r \<Rightarrow> [r] | Inl e \<Rightarrow> []) infos)"
  by (induction infos arbitrary: results ws) (simp_all split: sum.splits)

lemma calculate_min_scores_results:
  "fst (calculate_min_scores lib mappings unmatched interview_data) =
     map (\<lambda>mapping. process_matched_position lib mapping interview_data) mappings
     @ concat (map (\<lambda>position. case process_unmatched_position lib position of
                                  Inr r \<Rightarrow> [r] | Inl e \<Rightarrow> []) unmatched)"
proof -
  have "concat (map (\<lambda>info. case process_position lib interview_data info of
                                Inr r \<Rightarrow> [r] | Inl e \<Rightarrow> []) (map MatchedPosition mappings))
        = map (\<lambda>mapping. process_matched_position lib mapping interview_data) mappings"
    by (simp add: process_position_def comp_def)
  moreover have "map (\<lambda>info. case process_position lib interview_data info of
                                Inr r \<Rightarrow> [r] | Inl e \<Rightarrow> []) (map UnmatchedPosition unmatched)
        = map (\<lambda>position. case process_unmatched_position lib position of
                                  Inr r \<Rightarrow> [r] | Inl e \<Rightarrow> []) unmatched"
    by (simp add: process_position_def comp_def)
  ultimately show ?thesis
    by (simp only: calculate_min_scores_def process_positions_results Let_def map_append
        concat_append append_Nil)
qed

text \<open>
  C3. The result of an unmatched position has the status "cannot be matched". The
  result of a matched position, whose processing raises nothing, has the status "no
  interview candidates" when no candidate row has the interview position of the mapping;
  otherwise "data anomaly" when none of those candidates has a score that is a number or
  parses as one; otherwise "normal". The four status texts are pairwise different, and
  every result of \<open>calculate_min_scores\<close> carries one of them.
\<close>

theorem status_by_priority:
  "(\<forall>position r. process_position lib interview_data (UnmatchedPosition position) = Inr r
       \<longrightarrow> status r = status_unmatched)
   \<and> (\<forall>mapping. \<exists>r. process_position lib interview_data (MatchedPosition mapping) = Inr r
        \<and> status r =
            (let candidates = filter (\<lambda>interview. dict_get interview ''position_name''
                                  = PyStr (pm_interview_position mapping)) interview_data
             in if candidates = [] then status_no_interview
                else if \<forall>c \<in> set candidates. score_value lib (dict_get c ''score'') = None
                then status_data_anomaly
                else status_normal))
   \<and> distinct [status_unmatched, status_no_interview, status_data_anomaly, status_normal]
   \<and> (\<forall>r \<in> set (fst (calculate_min_scores lib mappings unmatched interview_data)).
        status r \<in> {status_unmatched, status_no_interview, status_data_anomaly, status_normal})"
proof -
  have a: "status r = status_unmatched"
    if "process_position lib interview_data (UnmatchedPosition position) = Inr r" for position r
    using that status_unmatched_position by (simp add: process_position_def)
  have b: "\<exists>r. process_position lib interview_data (MatchedPosition mapping) = Inr r
        \<and> status r =
            (let candidates = filter (\<lambda>interview. dict_get interview ''position_name''
                                  = PyStr (pm_interview_position mapping)) interview_data
             in if candidates = [] then status_no_interview
                else if \<forall>c \<in> set candidates. score_value lib (dict_get c ''score'') = None
                then status_data_anomaly
                else status_normal)" for mapping
    using status_matched_position [of lib mapping interview_data]
    by (simp add: process_position_def)
  have c: "status r \<in> {status_unmatched, status_no_interview, status_data_anomaly, status_normal}"
    if "r \<in> set (fst (calculate_min_scores lib mappings unmatched interview_data))" for r
  proof -
    from that consider mapping where "r = process_matched_position lib mapping interview_data"
      | position where "process_unmatched_position lib position = Inr r"
      by (auto simp: calculate_min_scores_results split: sum.splits)
    then show ?thesis
    proof cases
      case 1
      then show ?thesis
        using status_matched_position [of lib mapping interview_data]
        by (simp add: Let_def split: if_splits)
    next
      case 2
      then show ?thesis using status_unmatched_position by simp
    qed
  qed
  show ?thesis
    using a b c status_distinct by blast
qed

text \<open>
  Three matched positions and an unmatched one: the candidates of \<^verbatim>\<open>Clerk\<close> have the
  scores 85 and \<^verbatim>\<open>'60'\<close>, the one candidate of \<^verbatim>\<open>Cook\<close> has the score \<^verbatim>\<open>'n/a'\<close>, and
  \<^verbatim>\<open>Guard\<close> has no candidate.
\<close>

theorem status_by_priority_witness:
  "map status
     (fst (calculate_min_scores
        \<lparr>float_of_str = (\<lambda>s. if s = ''60'' then Some 60 else None),
         int_of_str = (\<lambda>s. None), str_of_num = (\<lambda>r. ''''), lower = id, sub_nonword = id,
         sequence_ratio = (\<lambda>a b. 0), list_of_set = id\<rparr>
        [\<lparr>pm_position_code = ''P01'', pm_position_name = ''Clerk'', pm_department = ''D'',
          pm_department_name = ''N'', pm_recruit_count = 1, pm_sheet_name = ''S'',
          pm_interview_position = ''Clerk'', pm_match_confidence = 1, pm_candidate_count = 2\<rparr>,
         \<lparr>pm_position_code = ''P02'', pm_position_name = ''Cook'', pm_department = ''D'',
          pm_department_name = ''N'', pm_recruit_count = 1, pm_sheet_name = ''S'',
          pm_interview_position = ''Cook'', pm_match_confidence = 1, pm_candidate_count = 1\<rparr>,
         \<lparr>pm_position_code = ''P03'', pm_position_name = ''Guard'', pm_department = ''D'',
          pm_department_name = ''N'', pm_recruit_count = 1, pm_sheet_name = ''S'',
          pm_interview_position = ''Guard'', pm_match_confidence = 1, pm_candidate_count = 0\<rparr>]
        [[(''position_name'', PyStr ''Pilot'')]]
        [[(''name'', PyStr ''A''), (''position_name'', PyStr ''Clerk''), (''score'', PyNum 85)],
         [(''name'', PyStr ''B''), (''position_name'', PyStr ''Clerk''), (''score'', PyStr ''60'')],
         [(''name'', PyStr ''C''), (''position_name'', PyStr ''Cook''), (''score'', PyStr ''n/a'')]]))
   = [status_normal, status_data_anomaly, status_no_interview, status_unmatched]"
proof -
  let ?lib = "\<lparr>float_of_str = (\<lambda>s. if s = ''60'' then Some 60 else None),
         int_of_str = (\<lambda>s. None), str_of_num = (\<lambda>r. ''''), lower = id, sub_nonword = id,
         sequence_ratio = (\<lambda>a b. 0), list_of_set = id\<rparr>"
  let ?iv = "[[(''name'', PyStr ''A''), (''position_name'', PyStr ''Clerk''), (''score'', PyNum 85)],
         [(''name'', PyStr ''B''), (''position_name'', PyStr ''Clerk''), (''score'', PyStr ''60'')],
         [(''name'', PyStr ''C''), (''position_name'', PyStr ''Cook''), (''score'', PyStr ''n/a'')]]"
  have u: "process_unmatched_position ?lib [(''position_name'', PyStr ''Pilot'')]
      = Inr \<lparr>psr_position_code = '''', psr_position_name = '''', psr_department = '''',
             psr_department_name = '''', psr_recruit_count = 0, candidate_count = 0, min_score = None,
             status = status_unmatched, result_notes = NoteUnmatched, all_scores = []\<rparr>"
    by (simp add: process_unmatched_position_def dict_get_def dict_get_default_def
        key_zhiwei_daima_def key_gangwei_daima_def key_zhaokao_zhiwei_def
        key_gangwei_mingcheng_def key_yongren_siju_def key_bumen_mingcheng_def
        key_zhaokao_renshu_def strip_status) (simp add: strip_def)
  show ?thesis
    using status_by_priority [of ?lib ?iv]
    by (simp add: calculate_min_scores_results u status_matched_position dict_get_def
        strip_def isspace_def)
qed

section \<open>C4: the score statistics\<close>

text \<open>
  Every result that \<open>calculate_min_scores\<close> produces has no \<open>min_score\<close>, so the score
  statistics that \<open>generate_statistics\<close> computes from those results are always empty.
\<close>

lemma min_score_matched_position:
  "min_score (process_matched_position lib mapping interview_data) = None"
  by (simp add: process_matched_position_def post_init_def Let_def)

lemma min_score_unmatched_position:
  "process_unmatched_position lib position = Inr r \<Longrightarrow> min_score r = None"
  by (auto simp: process_unmatched_position_def Let_def split: sum.splits if_splits)

lemma score_statistics_always_empty:
  "ps_score_statistics
     (generate_statistics (fst (calculate_min_scores lib mappings unmatched interview_data)))
   = None"
proof -
  have "min_score r = None"
    if "r \<in> set (fst (calculate_min_scores lib mappings unmatched interview_data))" for r
    using that min_score_matched_position min_score_unmatched_position
    by (auto simp: calculate_min_scores_results split: sum.splits)
  then have "filter (\<lambda>r. min_score r \<noteq> None)
      (fst (calculate_min_scores lib mappings unmatched interview_data)) = []"
    by (simp add: filter_empty_conv)
  then show ?thesis
    by (simp add: generate_statistics_def)
qed

text \<open>
  C4, evaluated. One matched position, \<^verbatim>\<open>Clerk\<close>, whose two candidates have the valid
  scores 85 and 60: its result is normal with both scores listed and no \<open>min_score\<close>, and
  the statistics count one normal position but report no minimum, maximum or average
  score.
\<close>

theorem score_statistics_empty_for_valid_scores:
  "fst (calculate_min_scores lib
     [\<lparr>pm_position_code = ''P01'', pm_position_name = ''Clerk'', pm_department = ''D'',
       pm_department_name = ''N'', pm_recruit_count = 1, pm_sheet_name = ''S'',
       pm_interview_position = ''Clerk'', pm_match_confidence = 1, pm_candidate_count = 2\<rparr>]
     []
     [[(''name'', PyStr ''A''), (''position_name'', PyStr ''Clerk''), (''score'', PyNum 85)],
      [(''name'', PyStr ''B''), (''position_name'', PyStr ''Clerk''), (''score'', PyNum 60)]])
   = [\<lparr>psr_position_code = ''P01'', psr_position_name = ''Clerk'', psr_department = ''D'',
       psr_department_name = ''N'', psr_recruit_count = 1, candidate_count = 2, min_score = None,
       status = status_normal, result_notes = NoteScores 2 [85, 60], all_scores = [85, 60]\<rparr>]
   \<and> generate_statistics
       [\<lparr>psr_position_code = ''P01'', psr_position_name = ''Clerk'', psr_department = ''D'',
         psr_department_name = ''N'', psr_recruit_count = 1, candidate_count = 2, min_score = None,
         status = status_normal, result_notes = NoteScores 2 [85, 60], all_scores = [85, 60]\<rparr>]
     = \<lparr>ps_total_positions = 1, ps_normal_positions = 1, ps_no_interview_positions = 0,
        ps_unmatched_positions = 0, ps_error_positions = 0, ps_score_statistics = None,
        ps_total_candidates = 2, ps_positions_with_candidates = 1\<rparr>"
proof -
  have neq: "status_normal \<noteq> status_no_interview" "status_normal \<noteq> status_unmatched"
    "status_normal \<noteq> status_data_anomaly"
    using status_distinct by auto
  have "fst (calculate_min_scores lib
     [\<lparr>pm_position_code = ''P01'', pm_position_name = ''Clerk'', pm_department = ''D'',
       pm_department_name = ''N'', pm_recruit_count = 1, pm_sheet_name = ''S'',
       pm_interview_position = ''Clerk'', pm_match_confidence = 1, pm_candidate_count = 2\<rparr>]
     []
     [[(''name'', PyStr ''A''), (''position_name'', PyStr ''Clerk''), (''score'', PyNum 85)],
      [(''name'', PyStr ''B''), (''position_name'', PyStr ''Clerk''), (''score'', PyNum 60)]])
   = [\<lparr>psr_position_code = ''P01'', psr_position_name = ''Clerk'', psr_department = ''D'',
       psr_department_name = ''N'', psr_recruit_count = 1, candidate_count = 2, min_score = None,
       status = status_normal, result_notes = NoteScores 2 [85, 60], all_scores = [85, 60]\<rparr>]"
    by (simp add: calculate_min_scores_results process_matched_position_def dict_get_def
        post_init_def strip_status) (simp add: strip_def isspace_def Let_def)
  moreover have "generate_statistics
       [\<lparr>psr_position_code = ''P01'', psr_position_name = ''Clerk'', psr_department = ''D'',
         psr_department_name = ''N'', psr_recruit_count = 1, candidate_count = 2, min_score = None,
         status = status_normal, result_notes = NoteScores 2 [85, 60], all_scores = [85, 60]\<rparr>]
     = \<lparr>ps_total_positions = 1, ps_normal_positions = 1, ps_no_interview_positions = 0,
        ps_unmatched_positions = 0, ps_error_positions = 0, ps_score_statistics = None,
        ps_total_candidates = 2, ps_positions_with_candidates = 1\<rparr>"
    by (simp add: generate_statistics_def neq)
  ultimately show ?thesis by blast
qed

section \<open>C5: the tiers of the legacy matcher\<close>

lemma find_Some_member: "find P xs = Some x \<Longrightarrow> x \<in> set xs \<and> P x"
  by (induction xs) (auto split: if_splits)

lemma exact_match_Some:
  "exact_match lib name ips = Some m \<Longrightarrow> m \<in> set ips \<and> exact_candidate lib name m"
  by (auto simp: exact_match_def exact_candidate_def
      split: option.splits if_splits dest: find_Some_member)

lemma exact_match_None:
  "exact_match lib name ips = None \<longleftrightarrow> \<not> (\<exists>p \<in> set ips. exact_candidate lib name p)"
proof
  assume "exact_match lib name ips = None"
  then show "\<not> (\<exists>p \<in> set ips. exact_candidate lib name p)"
    by (auto simp: exact_match_def exact_candidate_def find_None_iff
        split: option.splits if_splits)
next
  assume none: "\<not> (\<exists>p \<in> set ips. exact_candidate lib name p)"
  show "exact_match lib name ips = None"
  proof (cases "exact_match lib name ips")
    case None
    then show ?thesis .
  next
    case (Some m)
    from exact_match_Some [OF Some] none show ?thesis by blast
  qed
qed

lemma code_match_None:
  "code_match code ips = None \<longleftrightarrow> code = '''' \<or> \<not> (\<exists>p \<in> set ips. sublist code p)"
  by (auto simp: code_match_def find_None_iff)

lemma code_match_Some:
  "code_match code ips = Some m \<Longrightarrow> m \<in> set ips \<and> sublist code m \<and> code \<noteq> ''''"
  by (auto simp: code_match_def split: if_splits dest: find_Some_member)

text \<open>The fuzzy loop returns one of the interview positions, or what it started with.\<close>

lemma fuzzy_loop_member:
  "fuzzy_loop lib cp ips (b, r) = (Some m, r') \<Longrightarrow> m \<in> set ips \<or> b = Some m"
  by (induction ips arbitrary: b r) (auto simp: Let_def split: if_splits)

lemma fuzzy_match_member:
  "fuzzy_match lib name ips = (Some m, r) \<Longrightarrow> m \<in> set ips"
  using fuzzy_loop_member [of lib _ ips None 0 m r] by (auto simp: fuzzy_match_def)

text \<open>
  C5. Let the position have a string as its name and a string (or nothing) as its code,
  and let no interview position be the empty string (\<open>extract_interview_positions\<close>
  yields none). Then \<open>find_best_match\<close> raises nothing, and:
  \<^item> if some interview position is an exact match of the name, the result is one of
    those, of kind \<^verbatim>\<open>exact\<close> with confidence 1, whatever the code and the fuzzy ratios are;
  \<^item> if none is, the code is not empty and some interview position contains the code,
    the result is one of those, of kind \<^verbatim>\<open>code\<close> with confidence 0.95, whatever the fuzzy
    ratios are;
  \<^item> if neither holds, the result is the best fuzzy match, of kind \<^verbatim>\<open>fuzzy\<close> with its
    ratio as confidence, provided there is one and its ratio is at least the threshold;
    and else it is of kind \<^verbatim>\<open>none\<close> with confidence 0, not matched.
\<close>

theorem find_best_match_tiers:
  assumes "map_of position ''position_name'' = Some (PyStr name)"
    and "dict_get_default position ''position_code'' (PyStr '''') = PyStr code"
    and "'''' \<notin> set ips"
  shows "((\<exists>p \<in> set ips. exact_candidate lib name p) \<longrightarrow>
            (\<exists>m. find_best_match lib threshold position ips
                   = Inr \<lparr>mr_position_name = name, mr_interview_position = m,
                          mr_match_type = ''exact'', mr_confidence = 1, mr_matched = True\<rparr>
                 \<and> m \<in> set ips \<and> exact_candidate lib name m))
       \<and> (\<not> (\<exists>p \<in> set ips. exact_candidate lib name p)
            \<and> code \<noteq> '''' \<and> (\<exists>p \<in> set ips. sublist code p) \<longrightarrow>
            (\<exists>m. find_best_match lib threshold position ips
                   = Inr \<lparr>mr_position_name = name, mr_interview_position = m,
                          mr_match_type = ''code'', mr_confidence = 0.95, mr_matched = True\<rparr>
                 \<and> m \<in> set ips \<and> sublist code m))
       \<and> (\<not> (\<exists>p \<in> set ips. exact_candidate lib name p)
            \<and> \<not> (code \<noteq> '''' \<and> (\<exists>p \<in> set ips. sublist code p)) \<longrightarrow>
            (case fuzzy_match lib name ips of
               (Some m, ratio) \<Rightarrow>
                 find_best_match lib threshold position ips
                   = Inr (if ratio \<ge> threshold
                          then \<lparr>mr_position_name = name, mr_interview_position = m,
                                mr_match_type = ''fuzzy'', mr_confidence = ratio,
                                mr_matched = True\<rparr>
                          else \<lparr>mr_position_name = name, mr_interview_position = '''',
                                mr_match_type = ''none'', mr_confidence = 0,
                                mr_matched = False\<rparr>)
             | (None, ratio) \<Rightarrow>
                 find_best_match lib threshold position ips
                   = Inr \<lparr>mr_position_name = name, mr_interview_position = '''',
                          mr_match_type = ''none'', mr_confidence = 0, mr_matched = False\<rparr>))"
proof -
  have found_iff: "found (Some m) \<longleftrightarrow> True" if "m \<in> set ips" for m
    using that assms(3) by auto
  have exact: "\<exists>m. find_best_match lib threshold position ips
                   = Inr \<lparr>mr_position_name = name, mr_interview_position = m,
                          mr_match_type = ''exact'', mr_confidence = 1, mr_matched = True\<rparr>
                 \<and> m \<in> set ips \<and> exact_candidate lib name m"
    if "\<exists>p \<in> set ips. exact_candidate lib name p"
  proof -
    from that obtain m where m: "exact_match lib name ips = Some m"
      using exact_match_None [of lib name ips] by (cases "exact_match lib name ips") auto
    from exact_match_Some [OF m] have mem: "m \<in> set ips" "exact_candidate lib name m"
      by simp_all
    from mem(1) assms(3) have "m \<noteq> ''''" by auto
    then show ?thesis
      using mem by (simp add: find_best_match_def assms(1,2) m)
  qed
  have no_exact: "\<not> found (exact_match lib name ips)"
    if "\<not> (\<exists>p \<in> set ips. exact_candidate lib name p)"
    using that exact_match_None [of lib name ips] by simp
  have code_tier: "\<exists>m. find_best_match lib threshold position ips
                   = Inr \<lparr>mr_position_name = name, mr_interview_position = m,
                          mr_match_type = ''code'', mr_confidence = 0.95, mr_matched = True\<rparr>
                 \<and> m \<in> set ips \<and> sublist code m"
    if ne: "\<not> (\<exists>p \<in> set ips. exact_candidate lib name p)"
      and c: "code \<noteq> ''''" "\<exists>p \<in> set ips. sublist code p"
  proof -
    from c obtain m where m: "code_match code ips = Some m"
      using code_match_None [of code ips] by (cases "code_match code ips") auto
    from code_match_Some [OF m] have mem: "m \<in> set ips" "sublist code m"
      by simp_all
    from mem(1) assms(3) have "m \<noteq> ''''" by auto
    then show ?thesis
      using mem c(1) no_exact [OF ne] by (simp add: find_best_match_def assms(1,2) m)
  qed
  have fuzzy_tier: "find_best_match lib threshold position ips
      = Inr (fuzzy_or_none lib threshold name ips)"
    if ne: "\<not> (\<exists>p \<in> set ips. exact_candidate lib name p)"
      and nc: "\<not> (code \<noteq> '''' \<and> (\<exists>p \<in> set ips. sublist code p))"
  proof -
    from nc have "code = '''' \<or> code_match code ips = None"
      using code_match_None [of code ips] by auto
    then show ?thesis
      using no_exact [OF ne] by (auto simp: find_best_match_def assms(1,2))
  qed
  have fuzzy_cases: "(case fuzzy_match lib name ips of
               (Some m, ratio) \<Rightarrow>
                 Inr (fuzzy_or_none lib threshold name ips)
                   = Inr (if ratio \<ge> threshold
                          then \<lparr>mr_position_name = name, mr_interview_position = m,
                                mr_match_type = ''fuzzy'', mr_confidence = ratio,
                                mr_matched = True\<rparr>
                          else \<lparr>mr_position_name = name, mr_interview_position = '''',
                                mr_match_type = ''none'', mr_confidence = 0,
                                mr_matched = False\<rparr>)
             | (None, ratio) \<Rightarrow>
                 Inr (fuzzy_or_none lib threshold name ips)
                   = (Inr \<lparr>mr_position_name = name, mr_interview_position = '''',
                          mr_match_type = ''none'', mr_confidence = 0, mr_matched = False\<rparr>
                      :: error + legacy_match_result))"
  proof (cases "fuzzy_match lib name ips")
    case (Pair b r)
    show ?thesis
    proof (cases b)
      case None
      then show ?thesis by (simp add: Pair fuzzy_or_none_def)
    next
      case (Some m)
      with Pair fuzzy_match_member have "m \<in> set ips" by simp
      with assms(3) have "m \<noteq> ''''" by auto
      then show ?thesis by (simp add: Pair Some fuzzy_or_none_def)
    qed
  qed
  show ?thesis
  proof (intro conjI impI)
    assume "\<exists>p \<in> set ips. exact_candidate lib name p"
    then show "\<exists>m. find_best_match lib threshold position ips
                   = Inr \<lparr>mr_position_name = name, mr_interview_position = m,
                          mr_match_type = ''exact'', mr_confidence = 1, mr_matched = True\<rparr>
                 \<and> m \<in> set ips \<and> exact_candidate lib name m"
      by (rule exact)
  next
    assume "\<not> (\<exists>p \<in> set ips. exact_candidate lib name p)
            \<and> code \<noteq> '''' \<and> (\<exists>p \<in> set ips. sublist code p)"
    then show "\<exists>m. find_best_match lib threshold position ips
                   = Inr \<lparr>mr_position_name = name, mr_interview_position = m,
                          mr_match_type = ''code'', mr_confidence = 0.95, mr_matched = True\<rparr>
                 \<and> m \<in> set ips \<and> sublist code m"
      using code_tier by blast
  next
    assume "\<not> (\<exists>p \<in> set ips. exact_candidate lib name p)
            \<and> \<not> (code \<noteq> '''' \<and> (\<exists>p \<in> set ips. sublist code p))"
    then have fb: "find_best_match lib threshold position ips
      = Inr (fuzzy_or_none lib threshold name ips)"
      using fuzzy_tier by blast
    show "case fuzzy_match lib name ips of
               (Some m, ratio) \<Rightarrow>
                 find_best_match lib threshold position ips
                   = Inr (if ratio \<ge> threshold
                          then \<lparr>mr_position_name = name, mr_interview_position = m,
                                mr_match_type = ''fuzzy'', mr_confidence = ratio,
                                mr_matched = True\<rparr>
                          else \<lparr>mr_position_name = name, mr_interview_position = '''',
                                mr_match_type = ''none'', mr_confidence = 0,
                                mr_matched = False\<rparr>)
             | (None, ratio) \<Rightarrow>
                 find_best_match lib threshold position ips
                   = Inr \<lparr>mr_position_name = name, mr_interview_position = '''',
                          mr_match_type = ''none'', mr_confidence = 0, mr_matched = False\<rparr>"
      unfolding fb by (rule fuzzy_cases)
  qed
qed

text \<open>
  The position \<^verbatim>\<open>Clerk\<close> with the code \<^verbatim>\<open>P01\<close>, against the interview positions
  \<^verbatim>\<open>'P01 Office'\<close>, which contains the code, and \<^verbatim>\<open>'clerk'\<close>, which is the name save for
  case; every fuzzy ratio is 1. The exact match wins.
\<close>

theorem find_best_match_tiers_witness:
  "find_best_match
     \<lparr>float_of_str = (\<lambda>s. None), int_of_str = (\<lambda>s. None), str_of_num = (\<lambda>r. ''''),
      lower = map (\<lambda>c. if c = CHR ''C'' then CHR ''c'' else c), sub_nonword = id,
      sequence_ratio = (\<lambda>a b. 1), list_of_set = id\<rparr>
     0.8 [(''position_name'', PyStr ''Clerk''), (''position_code'', PyStr ''P01'')]
     [''P01 Office'', ''clerk'']
   = Inr \<lparr>mr_position_name = ''Clerk'', mr_interview_position = ''clerk'',
          mr_match_type = ''exact'', mr_confidence = 1, mr_matched = True\<rparr>"
proof -
  let ?lib = "\<lparr>float_of_str = (\<lambda>s. None), int_of_str = (\<lambda>s. None), str_of_num = (\<lambda>r. ''''),
      lower = map (\<lambda>c. if c = CHR ''C'' then CHR ''c'' else c), sub_nonword = id,
      sequence_ratio = (\<lambda>a b. 1), list_of_set = id\<rparr>"
  let ?pos = "[(''position_name'', PyStr ''Clerk''), (''position_code'', PyStr ''P01'')]"
  have h1: "map_of ?pos ''position_name'' = Some (PyStr ''Clerk'')" by simp
  have h2: "dict_get_default ?pos ''position_code'' (PyStr '''') = PyStr ''P01''"
    by (simp add: dict_get_default_def)
  have h3: "'''' \<notin> set [''P01 Office'', ''clerk'']" by simp
  have ex: "exact_match ?lib ''Clerk'' [''P01 Office'', ''clerk''] = Some ''clerk''"
    by (simp add: exact_match_def)
  from find_best_match_tiers [OF h1 h2 h3, of ?lib "0.8"]
  show ?thesis
    by (simp add: find_best_match_def dict_get_default_def ex)
qed

section \<open>C8: matching twice\<close>

subsection \<open>The configurable matcher\<close>

lemma match_rows_frame:
  "(snd (match_rows self rows df))\<lparr>cm_match_results := x\<rparr> = self\<lparr>cm_match_results := x\<rparr>"
proof (induction rows arbitrary: self)
  case Nil
  then show ?case by simp
next
  case (Cons r rows)
  show ?case
  proof (cases "find_matches_for_position (cm_column_mappings self) r df")
    case (Inl e)
    then show ?thesis by simp
  next
    case (Inr res)
    then show ?thesis
        using Cons.IH [where self = "self\<lparr>cm_match_results := cm_match_results self @ [res]\<rparr>"]
      by simp
  qed
qed

text \<open>\<open>match_data\<close> changes nothing of the object but its list of results.\<close>

lemma match_data_frame:
  "(snd (match_data self position_df interview_df))\<lparr>cm_match_results := []\<rparr>
     = self\<lparr>cm_match_results := []\<rparr>"
proof (cases "validate_columns_exist self position_df interview_df")
  case (Some e)
  then show ?thesis by (simp add: match_data_def)
next
  case None
  obtain res self' where run:
    "match_rows (self\<lparr>cm_match_results := []\<rparr>) (df_rows position_df) interview_df = (res, self')"
    by (cases "match_rows (self\<lparr>cm_match_results := []\<rparr>) (df_rows position_df) interview_df")
  have "snd (match_data self position_df interview_df) = self'"
    by (simp add: match_data_def None run split: sum.splits error.splits)
  moreover have "self'\<lparr>cm_match_results := []\<rparr> = self\<lparr>cm_match_results := []\<rparr>"
    using match_rows_frame [where self = "self\<lparr>cm_match_results := []\<rparr>"
        and rows = "df_rows position_df" and df = interview_df and x = "[]"] run
    by simp
  ultimately show ?thesis by simp
qed

text \<open>What \<open>match_data\<close> returns does not depend on the results of an earlier call.\<close>

lemma match_data_result:
  "fst (match_data self position_df interview_df)
     = fst (match_data (self\<lparr>cm_match_results := []\<rparr>) position_df interview_df)"
  by (simp add: match_data_def validate_columns_exist_def split: option.splits)

lemma match_data_twice:
  "fst (match_data (snd (match_data self position_df interview_df)) position_df interview_df)
     = fst (match_data self position_df interview_df)"
  using match_data_result [of "snd (match_data self position_df interview_df)"]
    match_data_result [of self] match_data_frame [of self position_df interview_df]
  by simp

subsection \<open>The fast matcher\<close>

lemma match_data_fast_twice:
  "match_data_fast (snd (match_data_fast self position_df interview_df)) position_df interview_df
     = match_data_fast self position_df interview_df"
proof (cases "interview_indices self = []")
  case False
  then show ?thesis by (simp add: match_data_fast_unfold Let_def)
next
  case True
  let ?self' = "fm_build_indices self interview_df"
  have first: "snd (match_data_fast self position_df interview_df) = ?self'"
    using True by (simp add: match_data_fast_unfold Let_def)
  show ?thesis
  proof (cases "interview_indices ?self' = []")
    case False
    then show ?thesis
      using True by (simp add: match_data_fast_unfold Let_def)
  next
    case empty: True
    have "fm_build_indices ?self' interview_df = ?self'"
      using True empty by (simp add: fm_build_indices_def)
    then show ?thesis
      using True empty by (simp add: match_data_fast_unfold Let_def)
  qed
qed

subsection \<open>The legacy matcher\<close>

lemma match_each_position_frame:
  "(snd (match_each_position lib self positions ips))\<lparr>dm_unmatched_positions := x\<rparr>
     = self\<lparr>dm_unmatched_positions := x\<rparr>"
proof (induction positions arbitrary: self)
  case Nil
  then show ?case by simp
next
  case (Cons p positions)
  show ?case
  proof (cases p)
    case NotDict
    then show ?thesis by simp
  next
    case (Dict d)
    show ?thesis
    proof (cases "find_best_match lib (dm_fuzzy_threshold self) d ips")
      case (Inl e)
      then show ?thesis by (simp add: Dict)
    next
      case (Inr res)
      then show ?thesis
        using Cons.IH
          [where self = "self\<lparr>dm_unmatched_positions := dm_unmatched_positions self @ [d]\<rparr>"]
        by (simp add: Dict)
    qed
  qed
qed

text \<open>\<open>match_positions\<close> changes nothing of the object but its three lists.\<close>

lemma match_positions_frame:
  "(snd (match_positions lib self position_data interview_data))
       \<lparr>dm_position_mappings := [], dm_unmatched_positions := [], dm_unmatched_interviews := []\<rparr>
     = self\<lparr>dm_position_mappings := [], dm_unmatched_positions := [],
            dm_unmatched_interviews := []\<rparr>"
proof -
  let ?self1 = "self\<lparr>dm_position_mappings := [], dm_unmatched_positions := [],
                     dm_unmatched_interviews := []\<rparr>"
  show ?thesis
  proof (cases "validate_input_data position_data interview_data")
    case (Some e)
    then show ?thesis by (simp add: match_positions_def)
  next
    case None
    show ?thesis
    proof (cases "extract_interview_positions lib interview_data")
      case (Inl e)
      then show ?thesis by (simp add: match_positions_def None)
    next
      case (Inr ips)
      obtain res self2 where run: "match_each_position lib ?self1 position_data ips = (res, self2)"
        by (cases "match_each_position lib ?self1 position_data ips")
      have frame: "self2\<lparr>dm_unmatched_positions := []\<rparr> = ?self1"
        using match_each_position_frame [where lib = lib and self = ?self1
            and positions = position_data and ips = ips and x = "[]"] run
        by simp
      have "(snd (match_positions lib self position_data interview_data))
               \<lparr>dm_position_mappings := [], dm_unmatched_positions := [],
                dm_unmatched_interviews := []\<rparr>
            = (self2\<lparr>dm_unmatched_positions := []\<rparr>)
               \<lparr>dm_position_mappings := [], dm_unmatched_interviews := []\<rparr>"
        by (cases res) (simp_all add: match_positions_def None Inr run Let_def)
      then show ?thesis
        by (simp add: frame)
    qed
  qed
qed

text \<open>What \<open>match_positions\<close> returns does not depend on the lists of an earlier call.\<close>

lemma match_positions_result:
  "fst (match_positions lib self position_data interview_data)
     = fst (match_positions lib
         (self\<lparr>dm_position_mappings := [], dm_unmatched_positions := [],
               dm_unmatched_interviews := []\<rparr>) position_data interview_data)"
  by (simp add: match_positions_def)

lemma match_positions_twice:
  "fst (match_positions lib (snd (match_positions lib self position_data interview_data))
          position_data interview_data)
     = fst (match_positions lib self position_data interview_data)"
  using match_positions_result [of lib "snd (match_positions lib self position_data interview_data)"]
    match_positions_result [of lib self] match_positions_frame [of lib self]
  by simp

text \<open>
  C8. A second call of the full match operation on the object that the first call left,
  with the same tables and the same mapping, returns what the first call returned: the
  same list of results with the same matched flags, scores and candidate rows, or the
  same exception. This holds for \<open>match_data\<close> of the configurable matcher, for
  \<open>match_data_fast\<close> (which also leaves the object as the first call left it), and for
  \<open>match_positions\<close> of the legacy matcher, where the order in which the interpreter
  enumerates the set of interview positions is the same in both calls, as it is within
  one process.
\<close>

theorem matching_twice_gives_same_results:
  "fst (match_data (snd (match_data cself position_df interview_df)) position_df interview_df)
     = fst (match_data cself position_df interview_df)
   \<and> match_data_fast (snd (match_data_fast fself position_df interview_df))
       position_df interview_df
     = match_data_fast fself position_df interview_df
   \<and> fst (match_positions lib (snd (match_positions lib dself position_data interview_data))
          position_data interview_data)
     = fst (match_positions lib dself position_data interview_data)"
  using match_data_twice match_data_fast_twice match_positions_twice by blast

text \<open>
  Two positions, \<^verbatim>\<open>A\<close> and \<^verbatim>\<open>Z\<close>, against the candidates \<^verbatim>\<open>A\<close> and \<^verbatim>\<open>B\<close>: the second
  call of either table matcher finds, as the first, the first position matched and the
  second not. A legacy call in which a position finds its match raises
  \<^verbatim>\<open>DataMatchingError\<close> (from the \<^verbatim>\<open>TypeError\<close> of the \<^verbatim>\<open>PositionMapping\<close> constructor), the
  second time as the first.
\<close>

theorem matching_twice_gives_same_results_witness:
  "map_sum id (\<lambda>out. map matched (co_match_results out))
     (fst (match_data
        (snd (match_data
           \<lparr>cm_column_mappings = [(''job'', ''job'')], fuzzy_threshold = 0.8,
            cm_match_results = []\<rparr>
           \<lparr>df_len = 2, df_columns = [(''job'', [Val ''A'', Val ''Z''])]\<rparr>
           \<lparr>df_len = 2, df_columns = [(''job'', [Val ''A'', Val ''B''])]\<rparr>))
        \<lparr>df_len = 2, df_columns = [(''job'', [Val ''A'', Val ''Z''])]\<rparr>
        \<lparr>df_len = 2, df_columns = [(''job'', [Val ''A'', Val ''B''])]\<rparr>))
   = Inr [True, False]
   \<and> map_sum id (\<lambda>out. map matched (fo_match_results out))
     (fst (match_data_fast
        (snd (match_data_fast (FastDataMatcher_init [(''job'', ''job'')])
           \<lparr>df_len = 2, df_columns = [(''job'', [Val ''A'', Val ''Z''])]\<rparr>
           \<lparr>df_len = 2, df_columns = [(''job'', [Val ''A'', Val ''B''])]\<rparr>))
        \<lparr>df_len = 2, df_columns = [(''job'', [Val ''A'', Val ''Z''])]\<rparr>
        \<lparr>df_len = 2, df_columns = [(''job'', [Val ''A'', Val ''B''])]\<rparr>))
   = Inr [True, False]
   \<and> fst (match_positions
        \<lparr>float_of_str = (\<lambda>s. None), int_of_str = (\<lambda>s. None), str_of_num = (\<lambda>r. ''''),
         lower = id, sub_nonword = id, sequence_ratio = (\<lambda>a b. 0), list_of_set = id\<rparr>
        (snd (match_positions
           \<lparr>float_of_str = (\<lambda>s. None), int_of_str = (\<lambda>s. None), str_of_num = (\<lambda>r. ''''),
            lower = id, sub_nonword = id, sequence_ratio = (\<lambda>a b. 0), list_of_set = id\<rparr>
           \<lparr>dm_fuzzy_threshold = 0.8, dm_position_mappings = [], dm_unmatched_positions = [],
            dm_unmatched_interviews = []\<rparr>
           [Dict [(''position_name'', PyStr ''Clerk'')]]
           [Dict [(''name'', PyStr ''A''), (''position_name'', PyStr ''Clerk''),
                  (''score'', PyNum 85)]]))
        [Dict [(''position_name'', PyStr ''Clerk'')]]
        [Dict [(''name'', PyStr ''A''), (''position_name'', PyStr ''Clerk''),
               (''score'', PyNum 85)]])
   = Inl (DataMatchingError TypeError)"
proof -
  let ?cs = "\<lparr>cm_column_mappings = [(''job'', ''job'')], fuzzy_threshold = 0.8,
            cm_match_results = []\<rparr>"
  let ?fs = "FastDataMatcher_init [(''job'', ''job'')]"
  let ?p = "\<lparr>df_len = 2, df_columns = [(''job'', [Val ''A'', Val ''Z''])]\<rparr>"
  let ?c = "\<lparr>df_len = 2, df_columns = [(''job'', [Val ''A'', Val ''B''])]\<rparr>"
  let ?lib = "\<lparr>float_of_str = (\<lambda>s. None), int_of_str = (\<lambda>s. None), str_of_num = (\<lambda>r. ''''),
         lower = id, sub_nonword = id, sequence_ratio = (\<lambda>a b. 0), list_of_set = id\<rparr>"
  let ?ds = "\<lparr>dm_fuzzy_threshold = 0.8, dm_position_mappings = [], dm_unmatched_positions = [],
            dm_unmatched_interviews = []\<rparr>"
  let ?pd = "[Dict [(''position_name'', PyStr ''Clerk'')]]"
  let ?iv = "[Dict [(''name'', PyStr ''A''), (''position_name'', PyStr ''Clerk''),
               (''score'', PyNum 85)]]"
  have c1: "map_sum id (\<lambda>out. map matched (co_match_results out)) (fst (match_data ?cs ?p ?c))
      = Inr [True, False]"
    by (simp add: match_data_def validate_columns_exist_def df_col_def df_rows_def df_row_def
        find_matches_for_position_def masked_records_def generate_match_statistics_def
        Let_def eval_nat_numeral)
  have f1: "map_sum id (\<lambda>out. map matched (fo_match_results out))
        (fst (match_data_fast ?fs ?p ?c))
      = Inr [True, False]"
    by (simp add: match_data_fast_unfold FastDataMatcher_init_def fm_build_indices_def
        df_col_def df_rows_def df_row_def index_add_def str_value_def strip_def isspace_def
        match_single_position_fast_def series_get_def iloc_records_def
        Let_def eval_nat_numeral)
  have d1: "fst (match_positions ?lib ?ds ?pd ?iv) = Inl (DataMatchingError TypeError)"
    by (simp add: match_positions_def validate_input_data_def dict_get_def missing_field_def
        extract_interview_positions_def dict_get_default_def strip_def isspace_def
        find_best_match_def exact_match_def Let_def)
  from matching_twice_gives_same_results [of ?cs ?p ?c ?fs ?lib ?ds ?pd ?iv]
  have "fst (match_data (snd (match_data ?cs ?p ?c)) ?p ?c) = fst (match_data ?cs ?p ?c)"
    and "match_data_fast (snd (match_data_fast ?fs ?p ?c)) ?p ?c = match_data_fast ?fs ?p ?c"
    and "fst (match_positions ?lib (snd (match_positions ?lib ?ds ?pd ?iv)) ?pd ?iv)
          = fst (match_positions ?lib ?ds ?pd ?iv)"
    by blast+
  then show ?thesis
    by (simp only: c1 f1 d1)
qed

subsection \<open>The order of the interview positions\<close>

lemma exact_match_enumeration:
  "exact_match (lib\<lparr>list_of_set := f\<rparr>) name ips = exact_match lib name ips"
  by (simp add: exact_match_def)

lemma clean_position_name_enumeration:
  "clean_position_name (lib\<lparr>list_of_set := f\<rparr>) s = clean_position_name lib s"
  by (simp add: clean_position_name_def)

lemma fuzzy_loop_enumeration:
  "fuzzy_loop (lib\<lparr>list_of_set := f\<rparr>) cp ips acc = fuzzy_loop lib cp ips acc"
  by (induction lib cp ips acc rule: fuzzy_loop.induct)
     (simp_all add: fuzzy_ratio_def clean_position_name_enumeration Let_def)

lemma fuzzy_or_none_enumeration:
  "fuzzy_or_none (lib\<lparr>list_of_set := f\<rparr>) t name ips = fuzzy_or_none lib t name ips"
  by (simp add: fuzzy_or_none_def fuzzy_match_def fuzzy_loop_enumeration
      clean_position_name_enumeration)

lemma find_best_match_enumeration:
  "find_best_match (lib\<lparr>list_of_set := f\<rparr>) t position ips = find_best_match lib t position ips"
  by (auto simp: find_best_match_def exact_match_enumeration fuzzy_or_none_enumeration Let_def
      split: option.splits pyval.splits)

lemma match_each_position_enumeration:
  "match_each_position (lib\<lparr>list_of_set := f\<rparr>) self positions ips
     = match_each_position lib self positions ips"
  by (induction lib self positions ips rule: match_each_position.induct)
     (simp_all add: find_best_match_enumeration split: sum.splits)

text \<open>The best ratio of the fuzzy loop is the greatest of the ratios and the start.\<close>

lemma fuzzy_loop_ratio:
  "snd (fuzzy_loop lib cp ips (b, r))
     = Max (insert r ((\<lambda>p. fuzzy_ratio lib cp (clean_position_name lib p)) ` set ips))"
proof (induction ips arbitrary: b r)
  case Nil
  then show ?case by simp
next
  case (Cons p ips)
  let ?g = "\<lambda>p. fuzzy_ratio lib cp (clean_position_name lib p)"
  have fin: "finite (?g ` set ips)" by simp
  show ?case
  proof (cases "?g p > r")
    case True
    have "Max (insert r (insert (?g p) (?g ` set ips))) = max r (Max (insert (?g p) (?g ` set ips)))"
      using fin by simp
    also have "\<dots> = Max (insert (?g p) (?g ` set ips))"
    proof -
      have "?g p \<le> Max (insert (?g p) (?g ` set ips))" using fin by simp
      with True have "r \<le> Max (insert (?g p) (?g ` set ips))" by linarith
      then show ?thesis by (rule max_absorb2)
    qed
    finally show ?thesis
      using True Cons.IH [of "Some p" "?g p"] by (simp add: Let_def)
  next
    case False
    have "Max (insert r (insert (?g p) (?g ` set ips))) = Max (insert (?g p) (insert r (?g ` set ips)))"
      by (simp add: insert_commute)
    also have "\<dots> = max (?g p) (Max (insert r (?g ` set ips)))"
      using fin by simp
    also have "\<dots> = Max (insert r (?g ` set ips))"
    proof -
      have "r \<le> Max (insert r (?g ` set ips))" using fin by simp
      with False have "?g p \<le> Max (insert r (?g ` set ips))" by linarith
      then show ?thesis by (rule max_absorb2)
    qed
    finally show ?thesis
      using False Cons.IH [of b r] by (simp add: Let_def)
  qed
qed

text \<open>The loop keeps what it started with, or ends with a position of a greater ratio.\<close>

lemma fuzzy_loop_best:
  "(fuzzy_loop lib cp ips (b, r) = (b, r))
   \<or> (\<exists>m \<in> set ips. fst (fuzzy_loop lib cp ips (b, r)) = Some m
        \<and> snd (fuzzy_loop lib cp ips (b, r)) > r)"
proof (induction ips arbitrary: b r)
  case Nil
  then show ?case by simp
next
  case (Cons p ips)
  let ?g = "fuzzy_ratio lib cp (clean_position_name lib p)"
  show ?case
  proof (cases "?g > r")
    case True
    from Cons.IH [of "Some p" ?g] True show ?thesis
      by (auto simp: Let_def)
  next
    case False
    from Cons.IH [of b r] False show ?thesis
      by (auto simp: Let_def)
  qed
qed

lemma fuzzy_match_found:
  assumes "'''' \<notin> set ips"
  shows "found (fst (fuzzy_match lib name ips)) \<longleftrightarrow> snd (fuzzy_match lib name ips) > 0"
  using fuzzy_loop_best [of lib "clean_position_name lib name" ips None 0] assms
  by (auto simp: fuzzy_match_def)

text \<open>
  Whether \<open>find_best_match\<close> raises or returns, and the kind, the confidence and the
  matched flag of what it returns, depend on the set of the interview positions only,
  not on their order. (The interview position that it returns may depend on the order:
  among several exact matches, or several fuzzy matches of the best ratio, the first
  wins.)
\<close>

lemma fuzzy_or_none_order:
  assumes "set ips1 = set ips2" and "'''' \<notin> set ips1"
  shows "(fuzzy_or_none lib t name ips1)\<lparr>mr_interview_position := ''''\<rparr>
       = (fuzzy_or_none lib t name ips2)\<lparr>mr_interview_position := ''''\<rparr>"
proof -
  have r: "snd (fuzzy_match lib name ips1) = snd (fuzzy_match lib name ips2)"
    by (simp add: fuzzy_match_def fuzzy_loop_ratio assms(1))
  from assms have e2: "'''' \<notin> set ips2" by simp
  have f: "found (fst (fuzzy_match lib name ips1)) = found (fst (fuzzy_match lib name ips2))"
    by (simp add: fuzzy_match_found [OF assms(2)] fuzzy_match_found [OF e2] r)
  obtain b1 r1 where m1: "fuzzy_match lib name ips1 = (b1, r1)"
    by (cases "fuzzy_match lib name ips1")
  obtain b2 r2 where m2: "fuzzy_match lib name ips2 = (b2, r2)"
    by (cases "fuzzy_match lib name ips2")
  show ?thesis
    using r f by (simp add: fuzzy_or_none_def m1 m2)
qed

lemma found_exact_match:
  assumes "'''' \<notin> set ips"
  shows "found (exact_match lib name ips) \<longleftrightarrow> (\<exists>p \<in> set ips. exact_candidate lib name p)"
proof (cases "exact_match lib name ips")
  case None
  then show ?thesis using exact_match_None [of lib name ips] by simp
next
  case (Some m)
  from exact_match_Some [OF Some] assms show ?thesis by (auto simp: Some)
qed

lemma found_code_match:
  assumes "'''' \<notin> set ips"
  shows "found (code_match code ips) \<longleftrightarrow> code \<noteq> '''' \<and> (\<exists>p \<in> set ips. sublist code p)"
proof (cases "code_match code ips")
  case None
  then show ?thesis using code_match_None [of code ips] by auto
next
  case (Some m)
  from code_match_Some [OF Some] assms show ?thesis by (auto simp: Some)
qed

lemma find_best_match_order:
  assumes "set ips1 = set ips2" and "'''' \<notin> set ips1"
  shows "map_sum id (\<lambda>r. r\<lparr>mr_interview_position := ''''\<rparr>) (find_best_match lib t position ips1)
       = map_sum id (\<lambda>r. r\<lparr>mr_interview_position := ''''\<rparr>) (find_best_match lib t position ips2)"
proof -
  from assms have e2: "'''' \<notin> set ips2" by simp
  from assms(1) have nil: "ips1 = [] \<longleftrightarrow> ips2 = []"
    by (metis set_empty)
  note fz = fuzzy_or_none_order [OF assms, of lib t]
  show ?thesis
    using fz nil
    by (simp add: find_best_match_def found_exact_match [OF assms(2)] found_exact_match [OF e2]
        found_code_match [OF assms(2)] found_code_match [OF e2] assms(1)
        split: option.splits pyval.splits)
qed

text \<open>
  Two interview positions that equal the name \<^verbatim>\<open>'a b'\<close> save for whitespace, in the two
  orders: the first of the list is the one returned.
\<close>

lemma find_best_match_position_depends_on_order:
  "find_best_match
     \<lparr>float_of_str = (\<lambda>s. None), int_of_str = (\<lambda>s. None), str_of_num = (\<lambda>r. ''''),
      lower = id, sub_nonword = id, sequence_ratio = (\<lambda>a b. 0), list_of_set = id\<rparr>
     0.8 [(''position_name'', PyStr ''a b'')] [''ab'', ''a  b'']
   = Inr \<lparr>mr_position_name = ''a b'', mr_interview_position = ''ab'',
          mr_match_type = ''exact'', mr_confidence = 1, mr_matched = True\<rparr>
   \<and> find_best_match
     \<lparr>float_of_str = (\<lambda>s. None), int_of_str = (\<lambda>s. None), str_of_num = (\<lambda>r. ''''),
      lower = id, sub_nonword = id, sequence_ratio = (\<lambda>a b. 0), list_of_set = id\<rparr>
     0.8 [(''position_name'', PyStr ''a b'')] [''a  b'', ''ab'']
   = Inr \<lparr>mr_position_name = ''a b'', mr_interview_position = ''a  b'',
          mr_match_type = ''exact'', mr_confidence = 1, mr_matched = True\<rparr>"
  by (simp add: find_best_match_def exact_match_def remove_whitespace_def isspace_def
      dict_get_default_def)

lemma find_best_match_matched_order:
  assumes "set ips1 = set ips2" and "'''' \<notin> set ips1"
  shows "map_sum id mr_matched (find_best_match lib t position ips1)
       = map_sum id mr_matched (find_best_match lib t position ips2)"
proof -
  have "map_sum id mr_matched (map_sum id (\<lambda>r. r\<lparr>mr_interview_position := ''''\<rparr>) x)
      = map_sum id mr_matched x" for x :: "error + legacy_match_result"
    by (cases x) simp_all
  with find_best_match_order [OF assms, of lib t position] show ?thesis
    by metis
qed

lemma match_each_position_order:
  assumes "set ips1 = set ips2" and "'''' \<notin> set ips1"
  shows "match_each_position lib self positions ips1 = match_each_position lib self positions ips2"
proof (induction positions arbitrary: self)
  case Nil
  then show ?case by simp
next
  case (Cons p positions)
  show ?case
  proof (cases p)
    case NotDict
    then show ?thesis by simp
  next
    case (Dict d)
    from find_best_match_matched_order [OF assms, of lib "dm_fuzzy_threshold self" d]
    show ?thesis
      using Cons.IH by (auto simp: Dict split: sum.splits)
  qed
qed

lemma collect_positions_nonempty:
  "collect_positions interview_data acc = Inr xs \<Longrightarrow> '''' \<notin> set acc \<Longrightarrow> '''' \<notin> set xs"
  by (induction interview_data acc rule: collect_positions.induct)
     (auto simp: Let_def split: pyval.splits if_splits)

lemma match_each_position_mappings:
  "dm_position_mappings (snd (match_each_position lib self positions ips))
     = dm_position_mappings self"
  by (induction lib self positions ips rule: match_each_position.induct)
     (simp_all split: sum.splits)

text \<open>
  So what \<open>match_positions\<close> returns does not depend on the order in which the set of
  interview positions is enumerated, save for the order of the list
  \<^verbatim>\<open>unmatched_interviews\<close>: two enumerations that list every element once give the same
  exception or the same mappings, unmatched positions and statistics, and the same
  unmatched interview positions as a set.
\<close>

lemma match_positions_enumeration_order:
  assumes "\<forall>xs. set (list_of_set lib xs) = set xs \<and> length (list_of_set lib xs) = length xs"
    and "\<forall>xs. set (f xs) = set xs \<and> length (f xs) = length xs"
  shows "map_sum id (\<lambda>out. (out\<lparr>lo_unmatched_interviews := []\<rparr>, set (lo_unmatched_interviews out)))
           (fst (match_positions (lib\<lparr>list_of_set := f\<rparr>) self position_data interview_data))
       = map_sum id (\<lambda>out. (out\<lparr>lo_unmatched_interviews := []\<rparr>, set (lo_unmatched_interviews out)))
           (fst (match_positions lib self position_data interview_data))"
proof -
  let ?self1 = "self\<lparr>dm_position_mappings := [], dm_unmatched_positions := [],
                     dm_unmatched_interviews := []\<rparr>"
  show ?thesis
  proof (cases "validate_input_data position_data interview_data")
    case (Some e)
    then show ?thesis by (simp add: match_positions_def)
  next
    case None
    show ?thesis
    proof (cases "collect_positions interview_data []")
      case (Inl e)
      then show ?thesis
        by (simp add: match_positions_def None extract_interview_positions_def)
    next
      case (Inr xs)
      from collect_positions_nonempty [OF Inr] have ne: "'''' \<notin> set xs" by simp
      from assms have s: "set (f xs) = set (list_of_set lib xs)"
        and l: "length (f xs) = length (list_of_set lib xs)" by simp_all
      from assms(2) ne have nef: "'''' \<notin> set (f xs)" by simp
      have run: "match_each_position (lib\<lparr>list_of_set := f\<rparr>) ?self1 position_data (f xs)
          = match_each_position lib ?self1 position_data (list_of_set lib xs)"
        using match_each_position_order [OF s nef] by (simp add: match_each_position_enumeration)
      obtain res self2 where r2:
        "match_each_position lib ?self1 position_data (list_of_set lib xs) = (res, self2)"
        by (cases "match_each_position lib ?self1 position_data (list_of_set lib xs)")
      have m2: "dm_position_mappings self2 = []"
        using match_each_position_mappings [of lib ?self1 position_data "list_of_set lib xs"] r2
        by simp
      show ?thesis
        by (cases res)
           (simp_all add: match_positions_def None extract_interview_positions_def Inr run r2 m2
              generate_match_result_def Let_def s l)
    qed
  qed
qed

section \<open>C9: the validity of the position data\<close>













end
